theory Spec2Isabelle
  imports Complex_Main
begin

section \<open>Values and exceptions of the Python program\<close>

text \<open>
  The development embeds the order and invoice logic of \<^verbatim>\<open>src/app.py\<close>.
  Python floats are idealised as the real numbers: rounding, infinities and NaN are
  outside the embedding. Every exception the embedded code can raise is a
  constructor of \<open>error\<close>; \<open>NotFound\<close> stands for the flash-and-redirect exit of the
  edit routes when the document does not exist.
\<close>

datatype error =
    ValueError
  | TypeError
  | IndexError
  | IntegrityError
  | RecursionError
  | AttributeError
  | ZeroDivisionError
  | OverflowError
  | NameError
  | NotFound

subsection \<open>Strings\<close>

text \<open>\<^verbatim>\<open>str.isspace\<close> on the characters a one-byte \<open>char\<close> can hold.\<close>

definition py_isspace :: "char \<Rightarrow> bool" where
  "py_isspace c =
     (let n = of_char c :: nat
      in (9 \<le> n \<and> n \<le> 13) \<or> (28 \<le> n \<and> n \<le> 32) \<or> n = 133 \<or> n = 160)"

text \<open>\<^verbatim>\<open>s.strip()\<close>\<close>

definition strip :: "string \<Rightarrow> string" where
  "strip s = rev (dropWhile py_isspace (rev (dropWhile py_isspace s)))"

text \<open>\<^verbatim>\<open>s.replace(a, b)\<close> for one-character \<open>a\<close> and \<open>b\<close>.\<close>

definition replace_char :: "char \<Rightarrow> char \<Rightarrow> string \<Rightarrow> string" where
  "replace_char a b s = map (\<lambda>c. if c = a then b else c) s"

subsection \<open>The builtin \<^verbatim>\<open>float\<close> on strings\<close>

text \<open>
  The functions below take the builtin as a parameter \<open>pf\<close>: \<open>pf s = None\<close> when
  \<^verbatim>\<open>float(s)\<close> raises \<^verbatim>\<open>ValueError\<close>, and \<open>Some x\<close> when it returns \<open>x\<close>.
  \<open>py_float\<close> is the builtin on finite decimal literals (sign, digit groups with
  single underscores, fraction, exponent, surrounding whitespace); it is used
  wherever a concrete input is evaluated. The literals \<^verbatim>\<open>nan\<close>, \<^verbatim>\<open>inf\<close> and
  \<^verbatim>\<open>infinity\<close>, which the builtin accepts, have no real value: \<open>py_float\<close> gives
  \<open>None\<close> for them and is not the builtin there, and a literal too large or too
  small for a double keeps its exact value.
\<close>

type_synonym pyfloat = "string \<Rightarrow> real option"

text \<open>
  The whitespace \<^verbatim>\<open>float\<close> removes around the literal: the ASCII whitespace and,
  of the other characters a \<open>char\<close> can hold, the two Unicode spaces U+0085 and
  U+00A0. The separators U+001C to U+001F are whitespace for \<^verbatim>\<open>str.strip\<close> but not
  here.
\<close>

definition float_isspace :: "char \<Rightarrow> bool" where
  "float_isspace c =
     (let n = of_char c :: nat in (9 \<le> n \<and> n \<le> 13) \<or> n = 32 \<or> n = 133 \<or> n = 160)"

definition float_strip :: "string \<Rightarrow> string" where
  "float_strip s = rev (dropWhile float_isspace (rev (dropWhile float_isspace s)))"

definition is_digit :: "char \<Rightarrow> bool" where
  "is_digit c = (let n = of_char c :: nat in 48 \<le> n \<and> n \<le> 57)"

definition digit_val :: "char \<Rightarrow> nat" where
  "digit_val c = of_char c - 48"

text \<open>A digit part: digits, single underscores allowed between two digits.\<close>

fun digitpart_ok :: "string \<Rightarrow> bool" where
  "digitpart_ok [] = False"
| "digitpart_ok [c] = is_digit c"
| "digitpart_ok (c # d # cs) =
     (is_digit c \<and> (if d = CHR ''_'' then digitpart_ok cs else digitpart_ok (d # cs)))"

definition digits_of :: "string \<Rightarrow> nat list" where
  "digits_of s = map digit_val (filter is_digit s)"

definition digits_val :: "nat list \<Rightarrow> nat" where
  "digits_val ds = foldl (\<lambda>a d. 10 * a + d) 0 ds"

definition split_sign :: "string \<Rightarrow> bool \<times> string" where
  "split_sign s =
     (case s of
        [] \<Rightarrow> (False, [])
      | c # cs \<Rightarrow> if c = CHR ''-'' then (True, cs)
                 else if c = CHR ''+'' then (False, cs) else (False, s))"

definition parse_mantissa :: "string \<Rightarrow> real option" where
  "parse_mantissa m =
     (let ip = takeWhile (\<lambda>c. c \<noteq> CHR ''.'') m;
          rest = dropWhile (\<lambda>c. c \<noteq> CHR ''.'') m
      in if rest = [] then
           (if digitpart_ok ip then Some (real (digits_val (digits_of ip))) else None)
         else
           (let fp = tl rest
            in if (ip = [] \<or> digitpart_ok ip) \<and> (fp = [] \<or> digitpart_ok fp)
                  \<and> \<not> (ip = [] \<and> fp = [])
               then Some (real (digits_val (digits_of ip))
                          + real (digits_val (digits_of fp)) / 10 ^ length (digits_of fp))
               else None))"

definition parse_exponent :: "string \<Rightarrow> int option" where
  "parse_exponent e =
     (let (neg, ds) = split_sign e
      in if digitpart_ok ds
         then Some (if neg then - int (digits_val (digits_of ds))
                    else int (digits_val (digits_of ds)))
         else None)"

definition is_e :: "char \<Rightarrow> bool" where
  "is_e c = (c = CHR ''e'' \<or> c = CHR ''E'')"

definition py_float :: pyfloat where
  "py_float s =
     (let (neg, u) = split_sign (float_strip s);
          m = takeWhile (\<lambda>c. \<not> is_e c) u;
          rest = dropWhile (\<lambda>c. \<not> is_e c) u
      in case parse_mantissa m of
           None \<Rightarrow> None
         | Some v \<Rightarrow>
             (let sv = (if neg then - v else v)
              in if rest = [] then Some sv
                 else (case parse_exponent (tl rest) of
                         None \<Rightarrow> None
                       | Some k \<Rightarrow>
                           Some (if 0 \<le> k then sv * 10 ^ nat k else sv / 10 ^ nat (- k)))))"

section \<open>Line-item calculators\<close>

text \<open>
  \<^verbatim>\<open>safe_float\<close> (defined twice in the module, with the same body): \<^verbatim>\<open>None\<close> and
  blank input give 0.0, a comma is read as the decimal point, and every exception
  of the conversion is caught and turned into 0.0.
\<close>

definition safe_float :: "pyfloat \<Rightarrow> string option \<Rightarrow> real" where
  "safe_float pf val =
     (case val of
        None \<Rightarrow> 0
      | Some s \<Rightarrow>
          if strip s = [] then 0
          else (case pf (replace_char (CHR '','') (CHR ''.'') s) of
                  None \<Rightarrow> 0
                | Some x \<Rightarrow> x))"

text \<open>
  The first \<^verbatim>\<open>calculate_line\<close> of the module (three parameters, sales documents).
  It returns \<open>(qty, rate, disc, line_total)\<close>.
\<close>

definition calculate_line_sales ::
  "pyfloat \<Rightarrow> string option \<Rightarrow> string option \<Rightarrow> string option \<Rightarrow> real \<times> real \<times> real \<times> real"
where
  "calculate_line_sales pf qty0 rate0 disc0 =
     (let qty = safe_float pf qty0;
          rate = safe_float pf rate0;
          disc = safe_float pf disc0;
          base = qty * rate;
          line_total = max (base * (1 - disc / 100)) 0
      in (qty, rate, disc, line_total))"

text \<open>
  The second \<^verbatim>\<open>calculate_line\<close> of the module (four parameters, purchase documents).
  It returns \<open>(qty, rate, disc, gst, net, tax, line_total)\<close>.
\<close>

definition calculate_line_purchase ::
  "pyfloat \<Rightarrow> string option \<Rightarrow> string option \<Rightarrow> string option \<Rightarrow> string option
     \<Rightarrow> real \<times> real \<times> real \<times> real \<times> real \<times> real \<times> real"
where
  "calculate_line_purchase pf qty0 rate0 disc0 gst0 =
     (let qty = safe_float pf qty0;
          rate = safe_float pf rate0;
          disc = safe_float pf disc0;
          gst = safe_float pf gst0;
          base = qty * rate;
          net = max (base - disc) 0;
          tax = net * (gst / 100);
          line_total = net + tax
      in (qty, rate, disc, gst, net, tax, line_total))"

subsection \<open>The name \<^verbatim>\<open>calculate_line\<close> when a request is served\<close>

text \<open>
  The module executes two \<^verbatim>\<open>def calculate_line\<close> statements, the three-parameter one
  (line 1610) and then the four-parameter one (line 2098). Both bind the same global
  name, so after import the name denotes the second function. The routes look the
  name up when they run, that is after the whole module has been executed.
\<close>

datatype calc_def = CalcSales | CalcPurchase

definition module_defs :: "(string \<times> calc_def) list" where
  "module_defs = [(''calculate_line'', CalcSales), (''calculate_line'', CalcPurchase)]"

text \<open>A global name denotes what the last \<^verbatim>\<open>def\<close> executed for it bound.\<close>

definition global_lookup :: "string \<Rightarrow> calc_def option" where
  "global_lookup name = map_of (rev module_defs) name"

text \<open>
  The call \<^verbatim>\<open>calculate_line(*args)\<close> in a route: Python raises \<^verbatim>\<open>TypeError\<close> when the
  number of positional arguments is not the number of parameters of the function the
  name denotes. The tuple returned is given as the list of its components.
\<close>

definition calculate_line :: "pyfloat \<Rightarrow> string option list \<Rightarrow> error + real list" where
  "calculate_line pf args =
     (case global_lookup ''calculate_line'' of
        None \<Rightarrow> Inl NameError
      | Some CalcSales \<Rightarrow>
          (case args of
             [qty0, rate0, disc0] \<Rightarrow>
               (case calculate_line_sales pf qty0 rate0 disc0 of
                  (qty, rate, disc, line_total) \<Rightarrow> Inr [qty, rate, disc, line_total])
           | _ \<Rightarrow> Inl TypeError)
      | Some CalcPurchase \<Rightarrow>
          (case args of
             [qty0, rate0, disc0, gst0] \<Rightarrow>
               (case calculate_line_purchase pf qty0 rate0 disc0 gst0 of
                  (qty, rate, disc, gst, net, tax, line_total) \<Rightarrow>
                    Inr [qty, rate, disc, gst, net, tax, line_total])
           | _ \<Rightarrow> Inl TypeError))"

section \<open>Amount in words\<close>

text \<open>\<^verbatim>\<open>" ".join(parts)\<close>\<close>

fun join_space :: "string list \<Rightarrow> string" where
  "join_space [] = []"
| "join_space [w] = w"
| "join_space (w # v # ws) = w @ '' '' @ join_space (v # ws)"

definition ones :: "string list" where
  "ones = [''zero'', ''one'', ''two'', ''three'', ''four'', ''five'', ''six'', ''seven'',
           ''eight'', ''nine'', ''ten'', ''eleven'', ''twelve'', ''thirteen'', ''fourteen'',
           ''fifteen'', ''sixteen'', ''seventeen'', ''eighteen'', ''nineteen'']"

definition tens :: "string list" where
  "tens = ['''', '''', ''twenty'', ''thirty'', ''forty'', ''fifty'', ''sixty'', ''seventy'',
           ''eighty'', ''ninety'']"

text \<open>
  The two local helpers of \<^verbatim>\<open>_inr_number_to_words\<close>. The source calls
  \<^verbatim>\<open>three_digits\<close> only with a remainder modulo 1000 and \<^verbatim>\<open>two_digits\<close> only with a
  remainder modulo 100, so every list index is in range
  (\<open>two_digits_index\<close>, \<open>three_digits_index\<close> below).
\<close>

definition two_digits :: "nat \<Rightarrow> string" where
  "two_digits num =
     (if num < 20 then ones ! num
      else (let t = num div 10; o1 = num mod 10
            in strip (tens ! t @ (if o1 \<noteq> 0 then '' '' @ ones ! o1 else ''''))))"

definition three_digits :: "nat \<Rightarrow> string" where
  "three_digits num =
     (let h = num div 100; rem = num mod 100;
          parts = (if h \<noteq> 0 then [ones ! h @ '' hundred''] else [])
                  @ (if rem \<noteq> 0 then [two_digits rem] else [])
      in if parts \<noteq> [] then join_space parts else ''zero'')"

text \<open>
  The body of \<^verbatim>\<open>_inr_number_to_words\<close>, with \<open>rec\<close> standing for its recursive
  call. \<^verbatim>\<open>divmod\<close> on Python integers is floor division, as \<open>div\<close> and \<open>mod\<close> on
  \<open>int\<close>.
\<close>

definition group_words :: "(int \<Rightarrow> error + string) \<Rightarrow> int \<Rightarrow> string \<Rightarrow> error + string list" where
  "group_words rec v unit_name =
     (if v \<noteq> 0
      then (case rec v of Inl e \<Rightarrow> Inl e | Inr w \<Rightarrow> Inr [w @ unit_name])
      else Inr [])"

definition words_body :: "(int \<Rightarrow> error + string) \<Rightarrow> int \<Rightarrow> error + string" where
  "words_body rec n =
     (if n = 0 then Inr ''zero''
      else
        let crore = n div 10000000; rem1 = n mod 10000000;
            lakh = rem1 div 100000; rem2 = rem1 mod 100000;
            thousand = rem2 div 1000; rem3 = rem2 mod 1000
        in case group_words rec crore '' crore'' of
             Inl e \<Rightarrow> Inl e
           | Inr pc \<Rightarrow>
               (case group_words rec lakh '' lakh'' of
                  Inl e \<Rightarrow> Inl e
                | Inr pl \<Rightarrow>
                    (case group_words rec thousand '' thousand'' of
                       Inl e \<Rightarrow> Inl e
                     | Inr pt \<Rightarrow>
                         Inr (join_space
                                (pc @ pl @ pt
                                 @ (if rem3 \<noteq> 0 then [three_digits (nat rem3)] else []))))))"

text \<open>
  \<^verbatim>\<open>_inr_number_to_words\<close>. The first argument is the number of call frames the
  interpreter still allows: a call with none left raises \<^verbatim>\<open>RecursionError\<close>.
\<close>

primrec inr_number_to_words :: "nat \<Rightarrow> int \<Rightarrow> error + string" where
  "inr_number_to_words 0 = (\<lambda>n. Inl RecursionError)"
| "inr_number_to_words (Suc k) = words_body (inr_number_to_words k)"

text \<open>The values the template filter receives: \<^verbatim>\<open>None\<close>, a string or a number.\<close>

datatype pyval = PNone | PStr string | PNum real

text \<open>\<^verbatim>\<open>float(amount or 0)\<close>; \<open>None\<close> when the conversion raises.\<close>

definition amount_float :: "pyfloat \<Rightarrow> pyval \<Rightarrow> real option" where
  "amount_float pf amount =
     (case amount of
        PNone \<Rightarrow> Some 0
      | PStr s \<Rightarrow> if s = [] then Some 0 else pf s
      | PNum x \<Rightarrow> Some x)"

text \<open>\<^verbatim>\<open>round(x)\<close>: to the nearest integer, a tie to the even one.\<close>

definition py_round :: "real \<Rightarrow> int" where
  "py_round x =
     (let f = \<lfloor>x\<rfloor>; d = x - of_int f
      in if d < 1 / 2 then f else if 1 / 2 < d then f + 1
         else if even f then f else f + 1)"

text \<open>\<^verbatim>\<open>round(x, 2)\<close>\<close>

definition py_round2 :: "real \<Rightarrow> real" where
  "py_round2 x = of_int (py_round (x * 100)) / 100"

text \<open>\<^verbatim>\<open>int(x)\<close> on a float: truncation towards zero.\<close>

definition py_int :: "real \<Rightarrow> int" where
  "py_int x = (if 0 \<le> x then \<lfloor>x\<rfloor> else \<lceil>x\<rceil>)"

text \<open>
  The branch through the optional \<^verbatim>\<open>num2words\<close> package. The package is a
  parameter: \<open>None\<close> when the import failed, otherwise a function that returns
  \<open>None\<close> where the package raises. The result is \<open>None\<close> when the branch is not
  taken or an exception sends the code on to the fallback.
\<close>

definition library_words :: "(int \<Rightarrow> string option) option \<Rightarrow> int \<Rightarrow> int \<Rightarrow> string option" where
  "library_words num2words rupees paise =
     (case num2words of
        None \<Rightarrow> None
      | Some f \<Rightarrow>
          (case f rupees of
             None \<Rightarrow> None
           | Some wr \<Rightarrow>
               (let w = replace_char (CHR ''-'') (CHR '' '') wr @ '' rupees''
                in if paise \<noteq> 0
                   then (case f paise of
                           None \<Rightarrow> None
                         | Some wp \<Rightarrow>
                             Some (w @ '' and '' @ replace_char (CHR ''-'') (CHR '' '') wp
                                     @ '' paise'' @ '' only''))
                   else Some (w @ '' only''))))"

definition inr_words ::
  "pyfloat \<Rightarrow> (int \<Rightarrow> string option) option \<Rightarrow> nat \<Rightarrow> pyval \<Rightarrow> error + string" where
  "inr_words pf num2words depth amount =
     (let n = (case amount_float pf amount of None \<Rightarrow> 0 | Some x \<Rightarrow> py_round2 x);
          rupees = py_int n;
          paise = py_round ((n - of_int rupees) * 100)
      in case library_words num2words rupees paise of
           Some w \<Rightarrow> Inr w
         | None \<Rightarrow>
             (case inr_number_to_words depth rupees of
                Inl e \<Rightarrow> Inl e
              | Inr wr \<Rightarrow>
                  if paise \<noteq> 0
                  then (case inr_number_to_words depth paise of
                          Inl e \<Rightarrow> Inl e
                        | Inr wp \<Rightarrow> Inr (wr @ '' rupees'' @ '' and '' @ wp @ '' paise'' @ '' only''))
                  else Inr (wr @ '' rupees'' @ '' only'')))"

section \<open>Barcode sheet: fitting the item name\<close>

text \<open>
  A font object: a FreeType font with its \<^verbatim>\<open>size\<close>, or the built-in bitmap font
  of \<^verbatim>\<open>ImageFont.load_default()\<close>, which the code falls back to when the
  DejaVu files cannot be opened and which has no \<^verbatim>\<open>size\<close> attribute.
\<close>

datatype font = TrueType int | Bitmap

definition PAGE_W :: int where "PAGE_W = 2480"
definition COLS :: int where "COLS = 5"
definition MARGIN_X :: int where "MARGIN_X = 50"
definition GAP_X :: int where "GAP_X = 30"
definition CELL_W :: int where
  "CELL_W = (PAGE_W - 2 * MARGIN_X - (COLS - 1) * GAP_X) div COLS"

definition font_text :: "bool \<Rightarrow> font" where
  "font_text fonts_found = (if fonts_found then TrueType 18 else Bitmap)"

text \<open>
  The \<^verbatim>\<open>while\<close> loop of \<^verbatim>\<open>items_barcodes\<close> on a FreeType font. \<open>textsize name f\<close>
  is the width \<^verbatim>\<open>draw.textsize(name, font=f)\<close> reports; the loop state is the
  font size and the last measured width.
\<close>

function shrink_font ::
  "(string \<Rightarrow> font \<Rightarrow> int) \<Rightarrow> string \<Rightarrow> int \<Rightarrow> int \<Rightarrow> int \<Rightarrow> int \<times> int" where
  "shrink_font textsize name max_width fsize w =
     (if max_width < w \<and> 12 < fsize
      then shrink_font textsize name max_width (fsize - 2)
             (textsize name (TrueType (fsize - 2)))
      else (fsize, w))"
  by pat_completeness auto
termination
  by (relation "measure (\<lambda>(textsize, name, max_width, fsize, w). nat (fsize - 12))") auto

declare shrink_font.simps [simp del]

text \<open>
  The statements around the loop: measure the name in \<^verbatim>\<open>font_text\<close>, shrink, and
  return the font and width used for drawing. With the bitmap font the loop condition
  reads \<^verbatim>\<open>font_name.size\<close> as soon as the name is too wide and raises.
\<close>

definition fit_item_name :: "(string \<Rightarrow> font \<Rightarrow> int) \<Rightarrow> font \<Rightarrow> string \<Rightarrow> error + font \<times> int" where
  "fit_item_name textsize font_name name =
     (let max_width = CELL_W - 10;
          w = textsize name font_name
      in case font_name of
           Bitmap \<Rightarrow> if max_width < w then Inl AttributeError else Inr (Bitmap, w)
         | TrueType fsize \<Rightarrow>
             (case shrink_font textsize name max_width fsize w of
                (fs, w') \<Rightarrow> Inr (TrueType fs, w')))"

section \<open>Paginated listings\<close>

text \<open>
  The \<^verbatim>\<open>sqlite3\<close> module binds a Python integer as a signed 64-bit \<^verbatim>\<open>INTEGER\<close> and
  raises \<^verbatim>\<open>OverflowError\<close> for an integer outside that range.
\<close>

definition fits_int64 :: "int \<Rightarrow> bool" where
  "fits_int64 v = (- (2 ^ 63) \<le> v \<and> v < 2 ^ 63)"

text \<open>
  What \<^verbatim>\<open>LIMIT\<close> and \<^verbatim>\<open>OFFSET\<close> of SQLite select from the rows of a query: a negative
  offset counts as zero and a negative limit as no limit.
\<close>

definition limit_offset_rows :: "int \<Rightarrow> int \<Rightarrow> 'a list \<Rightarrow> 'a list" where
  "limit_offset_rows limit_n offset_n rows =
     (let r = drop (nat offset_n) rows in if limit_n < 0 then r else take (nat limit_n) r)"

text \<open>The query \<^verbatim>\<open>... LIMIT ? OFFSET ?\<close> executed with the two bound parameters.\<close>

definition sql_limit_offset :: "int \<Rightarrow> int \<Rightarrow> 'a list \<Rightarrow> error + 'a list" where
  "sql_limit_offset limit_n offset_n rows =
     (if fits_int64 limit_n \<and> fits_int64 offset_n
      then Inr (limit_offset_rows limit_n offset_n rows)
      else Inl OverflowError)"

text \<open>
  The six listings after their filter clauses are built: \<open>matching\<close> are the rows the
  \<^verbatim>\<open>WHERE\<close> clause selects, in the \<^verbatim>\<open>ORDER BY\<close> order, and \<open>page\<close> and \<open>per_page\<close> are the
  integers read from the request. The result is \<open>(total, pages, rows of the page)\<close>.
  \<^verbatim>\<open>//\<close> on Python integers is floor division and raises on a zero divisor.
\<close>

text \<open>\<^verbatim>\<open>max(1, -(-total // per_page))\<close>, in \<^verbatim>\<open>customer_list\<close> and \<^verbatim>\<open>items_list\<close>.\<close>

definition customer_pages :: "int \<Rightarrow> int \<Rightarrow> error + int" where
  "customer_pages total_rows per_page =
     (if per_page = 0 then Inl ZeroDivisionError
      else Inr (max 1 (- ((- total_rows) div per_page))))"

text \<open>
  \<^verbatim>\<open>(total + per_page - 1) // per_page\<close>, in \<^verbatim>\<open>supplier_list\<close>, \<^verbatim>\<open>salesorder_list\<close> and
  \<^verbatim>\<open>salesinvoice_list\<close>.
\<close>

definition supplier_pages :: "int \<Rightarrow> int \<Rightarrow> error + int" where
  "supplier_pages total_rows per_page =
     (if per_page = 0 then Inl ZeroDivisionError
      else Inr ((total_rows + per_page - 1) div per_page))"

text \<open>
  \<^verbatim>\<open>ceil(total_count / per_page)\<close> of \<^verbatim>\<open>po_list\<close>: a float division, taken exactly.
\<close>

definition po_pages :: "int \<Rightarrow> int \<Rightarrow> error + int" where
  "po_pages total_rows per_page =
     (if per_page = 0 then Inl ZeroDivisionError
      else Inr \<lceil>real_of_int total_rows / real_of_int per_page\<rceil>)"

text \<open>\<^verbatim>\<open>customer_list\<close> and \<^verbatim>\<open>items_list\<close> count, compute the pages and then fetch.\<close>

definition customer_list :: "'a list \<Rightarrow> int \<Rightarrow> int \<Rightarrow> error + int \<times> int \<times> 'a list" where
  "customer_list matching per_page page =
     (let total_rows = int (length matching)
      in case customer_pages total_rows per_page of
           Inl e \<Rightarrow> Inl e
         | Inr pages \<Rightarrow>
             (case sql_limit_offset per_page ((page - 1) * per_page) matching of
                Inl e \<Rightarrow> Inl e
              | Inr rows \<Rightarrow> Inr (total_rows, pages, rows)))"

definition items_list :: "'a list \<Rightarrow> int \<Rightarrow> int \<Rightarrow> error + int \<times> int \<times> 'a list" where
  "items_list matching per_page page =
     (let total_rows = int (length matching)
      in case customer_pages total_rows per_page of
           Inl e \<Rightarrow> Inl e
         | Inr pages \<Rightarrow>
             (case sql_limit_offset per_page ((page - 1) * per_page) matching of
                Inl e \<Rightarrow> Inl e
              | Inr rows \<Rightarrow> Inr (total_rows, pages, rows)))"

definition supplier_list :: "'a list \<Rightarrow> int \<Rightarrow> int \<Rightarrow> error + int \<times> int \<times> 'a list" where
  "supplier_list matching per_page page =
     (let total_rows = int (length matching)
      in case supplier_pages total_rows per_page of
           Inl e \<Rightarrow> Inl e
         | Inr pages \<Rightarrow>
             (case sql_limit_offset per_page ((page - 1) * per_page) matching of
                Inl e \<Rightarrow> Inl e
              | Inr rows \<Rightarrow> Inr (total_rows, pages, rows)))"

text \<open>
  \<^verbatim>\<open>salesorder_list\<close> (page size 10) and \<^verbatim>\<open>po_list\<close> fetch first and count afterwards,
  with the same \<^verbatim>\<open>WHERE\<close> clause.
\<close>

definition salesorder_list :: "'a list \<Rightarrow> int \<Rightarrow> error + int \<times> int \<times> 'a list" where
  "salesorder_list matching page =
     (let per_page = 10;
          offset_n = (page - 1) * per_page
      in case sql_limit_offset per_page offset_n matching of
           Inl e \<Rightarrow> Inl e
         | Inr rows \<Rightarrow>
             (let total_count = int (length matching)
              in case supplier_pages total_count per_page of
                   Inl e \<Rightarrow> Inl e
                 | Inr total_pages \<Rightarrow> Inr (total_count, total_pages, rows)))"

definition po_list :: "'a list \<Rightarrow> int \<Rightarrow> int \<Rightarrow> error + int \<times> int \<times> 'a list" where
  "po_list matching per_page page =
     (let offset_n = (page - 1) * per_page
      in case sql_limit_offset per_page offset_n matching of
           Inl e \<Rightarrow> Inl e
         | Inr rows \<Rightarrow>
             (let total_count = int (length matching)
              in case po_pages total_count per_page of
                   Inl e \<Rightarrow> Inl e
                 | Inr total_pages \<Rightarrow> Inr (total_count, total_pages, rows)))"

text \<open>
  \<^verbatim>\<open>salesinvoice_list\<close> (page size 20) counts every invoice and fetches the invoices
  joined with their customer; \<open>has_customer\<close> tells whether the join finds one.
\<close>

definition salesinvoice_list ::
  "'a list \<Rightarrow> ('a \<Rightarrow> bool) \<Rightarrow> int \<Rightarrow> error + int \<times> int \<times> 'a list" where
  "salesinvoice_list invoices has_customer page =
     (let per_page = 20;
          offset_n = (page - 1) * per_page;
          total_rows = int (length invoices)
      in case sql_limit_offset per_page offset_n (filter has_customer invoices) of
           Inl e \<Rightarrow> Inl e
         | Inr rows \<Rightarrow>
             (case supplier_pages total_rows per_page of
                Inl e \<Rightarrow> Inl e
              | Inr total_pages \<Rightarrow> Inr (total_rows, total_pages, rows)))"

section \<open>Documents and their storage\<close>

subsection \<open>Integers as text, and the clock\<close>

definition digit_char :: "nat \<Rightarrow> char" where
  "digit_char d = ''0123456789'' ! (d mod 10)"

text \<open>\<^verbatim>\<open>str(n)\<close> for a non-negative integer, and for any integer.\<close>

fun str_nat :: "nat \<Rightarrow> string" where
  "str_nat n = (if n < 10 then [digit_char n] else str_nat (n div 10) @ [digit_char (n mod 10)])"

declare str_nat.simps [simp del]

definition py_str_int :: "int \<Rightarrow> string" where
  "py_str_int i = (if i < 0 then CHR ''-'' # str_nat (nat (- i)) else str_nat (nat i))"

text \<open>The format \<^verbatim>\<open>{n:0wd}\<close> for a non-negative \<open>n\<close>: at least \<open>w\<close> digits, zero-padded.\<close>

definition zero_pad :: "nat \<Rightarrow> nat \<Rightarrow> string" where
  "zero_pad w n = replicate (w - length (str_nat n)) (CHR ''0'') @ str_nat n"

text \<open>
  What \<^verbatim>\<open>datetime.now()\<close> and \<^verbatim>\<open>datetime.today()\<close> return when a request is served:
  the calendar date and the Unix timestamp. \<^verbatim>\<open>%Y%m%d\<close> prints the year with four
  digits and month and day with two.
\<close>

record clock =
  year :: nat
  month :: nat
  day :: nat
  timestamp :: real

definition strftime_Ymd :: "clock \<Rightarrow> string" where
  "strftime_Ymd clk = zero_pad 4 (year clk) @ zero_pad 2 (month clk) @ zero_pad 2 (day clk)"

definition strftime_Y_m_d :: "clock \<Rightarrow> string" where
  "strftime_Y_m_d clk =
     zero_pad 4 (year clk) @ ''-'' @ zero_pad 2 (month clk) @ ''-'' @ zero_pad 2 (day clk)"

subsection \<open>Tables\<close>

text \<open>
  A table is the list of its rows. Line rows carry the id of their header in the
  first field; their own row id plays no role and is left out. \<open>so_seq\<close>, \<open>si_seq\<close>
  and \<open>po_seq\<close> are the largest row ids handed out so far (\<^verbatim>\<open>AUTOINCREMENT\<close>).
  Only \<^verbatim>\<open>sales_orders\<close> and \<^verbatim>\<open>sales_order_items\<close> are declared by \<^verbatim>\<open>init_db\<close> with the
  columns the routes use; for them the declared \<^verbatim>\<open>UNIQUE\<close> and \<^verbatim>\<open>NOT NULL\<close>
  constraints are part of the model. The invoice and purchase-order tables the routes
  write to are declared nowhere under \<^verbatim>\<open>src/\<close> with those columns, and carry no
  constraint here. Foreign keys are not enforced (no \<^verbatim>\<open>PRAGMA foreign_keys\<close>).
\<close>

record sline =
  sl_doc :: nat
  sl_item_id :: string
  sl_qty :: real
  sl_rate :: real
  sl_discount :: real
  sl_line_total :: real

record pline =
  pl_doc :: nat
  pl_item_id :: string
  pl_qty :: real
  pl_rate :: real
  pl_discount :: real
  pl_gst_rate :: real
  pl_net :: real
  pl_tax :: real
  pl_line_total :: real

record so_row =
  so_id :: nat
  so_no :: "string option"
  so_customer_id :: "string option"
  so_date :: "string option"
  so_expected_delivery_date :: "string option"
  so_notes :: "string option"
  so_total :: real
  so_grand_total :: real

record si_row =
  si_id :: nat
  si_invoice_no :: string
  si_sales_order_id :: "string option"
  si_customer_id :: "string option"
  si_date :: "string option"
  si_due_date :: "string option"
  si_notes :: "string option"
  si_total :: real
  si_grand_total :: real

record po_row =
  po_id :: nat
  po_no :: "string option"
  po_supplier_id :: "string option"
  po_date :: "string option"
  po_notes :: "string option"
  po_total :: real
  po_tax_total :: real
  po_grand_total :: real

record db =
  sales_orders :: "so_row list"
  so_seq :: nat
  sales_order_items :: "sline list"
  sales_invoices :: "si_row list"
  si_seq :: nat
  sales_invoice_items :: "sline list"
  purchase_orders :: "po_row list"
  po_seq :: nat
  purchase_order_items :: "pline list"

text \<open>\<^verbatim>\<open>cursor.lastrowid\<close> of an insert: one more than every id in use or used before.\<close>

definition next_rowid :: "nat \<Rightarrow> nat list \<Rightarrow> nat" where
  "next_rowid seq ids = Suc (fold max ids seq)"

text \<open>\<^verbatim>\<open>xs[i]\<close> for \<open>i\<close> from \<^verbatim>\<open>range(len(...))\<close>.\<close>

definition py_get :: "'a list \<Rightarrow> nat \<Rightarrow> error + 'a" where
  "py_get xs i = (if i < length xs then Inr (xs ! i) else Inl IndexError)"

subsection \<open>Sales invoices\<close>

record si_form =
  sif_customer_id :: "string option"
  sif_date :: "string option"
  sif_due_date :: "string option"
  sif_invoice_no :: "string option"
  sif_notes :: "string option"
  sif_sales_order_id :: "string option"
  sif_item_ids :: "string list"
  sif_qtys :: "string list"
  sif_rates :: "string list"
  sif_discounts :: "string list"

text \<open>\<^verbatim>\<open>form.get('invoice_no') or f"INV{int(datetime.now().timestamp())}"\<close>\<close>

definition invoice_no_of :: "clock \<Rightarrow> si_form \<Rightarrow> string" where
  "invoice_no_of clk f =
     (case sif_invoice_no f of
        None \<Rightarrow> ''INV'' @ py_str_int (py_int (timestamp clk))
      | Some s \<Rightarrow> if s = [] then ''INV'' @ py_str_int (py_int (timestamp clk)) else s)"

text \<open>\<^verbatim>\<open>float(x or 0)\<close> on a submitted string: no comma handling and nothing caught.\<close>

definition float_or0 :: "pyfloat \<Rightarrow> string \<Rightarrow> error + real" where
  "float_or0 pf s =
     (if s = [] then Inr 0
      else (case pf s of None \<Rightarrow> Inl ValueError | Some x \<Rightarrow> Inr x))"

text \<open>
  One pass of the loop of \<^verbatim>\<open>save_invoice\<close>: the tuple appended to \<^verbatim>\<open>line_items\<close>.
  The item id is not tested.
\<close>

definition si_line :: "pyfloat \<Rightarrow> si_form \<Rightarrow> nat \<Rightarrow> error + string \<times> real \<times> real \<times> real \<times> real" where
  "si_line pf f i =
     (case py_get (sif_qtys f) i of
        Inl e \<Rightarrow> Inl e
      | Inr q \<Rightarrow>
     (case float_or0 pf q of
        Inl e \<Rightarrow> Inl e
      | Inr qty \<Rightarrow>
     (case py_get (sif_rates f) i of
        Inl e \<Rightarrow> Inl e
      | Inr r \<Rightarrow>
     (case float_or0 pf r of
        Inl e \<Rightarrow> Inl e
      | Inr rate \<Rightarrow>
     (case py_get (sif_discounts f) i of
        Inl e \<Rightarrow> Inl e
      | Inr dc \<Rightarrow>
     (case float_or0 pf dc of
        Inl e \<Rightarrow> Inl e
      | Inr disc \<Rightarrow>
          (let base = qty * rate;
               line_total = max (base * (1 - disc / 100)) 0
           in Inr (sif_item_ids f ! i, qty, rate, disc, line_total))))))))"

fun si_lines ::
  "pyfloat \<Rightarrow> si_form \<Rightarrow> nat list \<Rightarrow> real \<times> (string \<times> real \<times> real \<times> real \<times> real) list
     \<Rightarrow> error + real \<times> (string \<times> real \<times> real \<times> real \<times> real) list" where
  "si_lines pf f [] acc = Inr acc"
| "si_lines pf f (i # rest) acc =
     (case si_line pf f i of
        Inl e \<Rightarrow> Inl e
      | Inr l \<Rightarrow> si_lines pf f rest (fst acc + snd (snd (snd (snd l))), snd acc @ [l]))"

definition sline_of :: "nat \<Rightarrow> string \<times> real \<times> real \<times> real \<times> real \<Rightarrow> sline" where
  "sline_of doc l =
     (case l of (item_id, qty, rate, disc, line_total) \<Rightarrow>
        \<lparr>sl_doc = doc, sl_item_id = item_id, sl_qty = qty, sl_rate = rate,
         sl_discount = disc, sl_line_total = line_total\<rparr>)"

definition new_si_id :: "db \<Rightarrow> nat" where
  "new_si_id d = next_rowid (si_seq d) (map si_id (sales_invoices d))"

text \<open>
  \<^verbatim>\<open>save_invoice(db, form, id)\<close>. Nothing is written before the loop has finished, and
  an exception leaves the transaction uncommitted, so a failure returns the error
  alone.
\<close>

definition save_invoice :: "pyfloat \<Rightarrow> clock \<Rightarrow> si_form \<Rightarrow> nat option \<Rightarrow> db \<Rightarrow> error + db" where
  "save_invoice pf clk f ident d =
     (let invoice_no = invoice_no_of clk f
      in case si_lines pf f [0..<length (sif_item_ids f)] (0, []) of
           Inl e \<Rightarrow> Inl e
         | Inr (total_v, line_items) \<Rightarrow>
             (case ident of
                None \<Rightarrow>
                  (let invoice_id = new_si_id d;
                       row = \<lparr>si_id = invoice_id, si_invoice_no = invoice_no,
                              si_sales_order_id = sif_sales_order_id f,
                              si_customer_id = sif_customer_id f, si_date = sif_date f,
                              si_due_date = sif_due_date f, si_notes = sif_notes f,
                              si_total = total_v, si_grand_total = total_v\<rparr>
                   in Inr (d\<lparr>sales_invoices := sales_invoices d @ [row],
                              si_seq := invoice_id,
                              sales_invoice_items :=
                                sales_invoice_items d @ map (sline_of invoice_id) line_items\<rparr>))
              | Some i \<Rightarrow>
                  (let upd = (\<lambda>r. if si_id r = i
                                   then r\<lparr>si_sales_order_id := sif_sales_order_id f,
                                          si_customer_id := sif_customer_id f,
                                          si_date := sif_date f, si_due_date := sif_due_date f,
                                          si_invoice_no := invoice_no, si_notes := sif_notes f,
                                          si_total := total_v, si_grand_total := total_v\<rparr>
                                   else r)
                   in Inr (d\<lparr>sales_invoices := map upd (sales_invoices d),
                              sales_invoice_items :=
                                filter (\<lambda>l. sl_doc l \<noteq> i) (sales_invoice_items d)
                                @ map (sline_of i) line_items\<rparr>))))"

definition empty_db :: db where
  "empty_db = \<lparr>sales_orders = [], so_seq = 0, sales_order_items = [],
               sales_invoices = [], si_seq = 0, sales_invoice_items = [],
               purchase_orders = [], po_seq = 0, purchase_order_items = []\<rparr>"

subsection \<open>Sales orders\<close>

text \<open>
  The \<^verbatim>\<open>LIKE\<close> operator of SQLite: \<open>%\<close> matches any run of characters, \<open>_\<close> one
  character, and any other character of the pattern matches itself, the ASCII letters
  without regard to case.
\<close>

definition like_fold :: "char \<Rightarrow> char" where
  "like_fold c = (let n = of_char c :: nat in if 65 \<le> n \<and> n \<le> 90 then char_of (n + 32) else c)"

fun sqlite_like :: "string \<Rightarrow> string \<Rightarrow> bool" where
  "sqlite_like [] [] = True"
| "sqlite_like [] (c # cs) = False"
| "sqlite_like (p # ps) [] = (p = CHR ''%'' \<and> sqlite_like ps [])"
| "sqlite_like (p # ps) (c # cs) =
     (if p = CHR ''%'' then sqlite_like ps (c # cs) \<or> sqlite_like (p # ps) cs
      else (p = CHR ''_'' \<or> like_fold p = like_fold c) \<and> sqlite_like ps cs)"

text \<open>\<^verbatim>\<open>so_no LIKE ?\<close> on a row; a \<^verbatim>\<open>NULL\<close> number matches nothing.\<close>

definition so_no_like :: "string \<Rightarrow> so_row \<Rightarrow> bool" where
  "so_no_like pat r = (case so_no r of None \<Rightarrow> False | Some s \<Rightarrow> sqlite_like pat s)"

record so_form =
  sof_customer_id :: "string option"
  sof_so_no :: "string option"
  sof_date :: "string option"
  sof_expected_delivery_date :: "string option"
  sof_notes :: "string option"
  sof_item_ids :: "string list"
  sof_qtys :: "string list"
  sof_rates :: "string list"
  sof_discounts :: "string list"

text \<open>
  One pass of the line loop of \<^verbatim>\<open>salesorder_new\<close> and \<^verbatim>\<open>salesorder_edit\<close>: \<open>None\<close> for a
  line that is skipped, else the values inserted. The arguments of the call are
  evaluated before the call is made, and the result is unpacked into four names.
\<close>

definition so_line ::
  "pyfloat \<Rightarrow> so_form \<Rightarrow> nat \<Rightarrow> error + (string \<times> real \<times> real \<times> real \<times> real) option" where
  "so_line pf f i =
     (if sof_item_ids f ! i = [] then Inr None
      else
     (case py_get (sof_qtys f) i of
        Inl e \<Rightarrow> Inl e
      | Inr q \<Rightarrow>
     (case py_get (sof_rates f) i of
        Inl e \<Rightarrow> Inl e
      | Inr r \<Rightarrow>
     (case py_get (sof_discounts f) i of
        Inl e \<Rightarrow> Inl e
      | Inr dc \<Rightarrow>
     (case calculate_line pf [Some q, Some r, Some dc] of
        Inl e \<Rightarrow> Inl e
      | Inr res \<Rightarrow>
          (case res of
             [qty, rate, disc, line_total] \<Rightarrow>
               Inr (Some (sof_item_ids f ! i, qty, rate, disc, line_total))
           | _ \<Rightarrow> Inl ValueError))))))"

fun so_lines ::
  "pyfloat \<Rightarrow> so_form \<Rightarrow> nat list \<Rightarrow> real \<times> (string \<times> real \<times> real \<times> real \<times> real) list
     \<Rightarrow> error + real \<times> (string \<times> real \<times> real \<times> real \<times> real) list" where
  "so_lines pf f [] acc = Inr acc"
| "so_lines pf f (i # rest) acc =
     (case so_line pf f i of
        Inl e \<Rightarrow> Inl e
      | Inr None \<Rightarrow> so_lines pf f rest acc
      | Inr (Some l) \<Rightarrow>
          so_lines pf f rest (fst acc + snd (snd (snd (snd l))), snd acc @ [l]))"

definition new_so_id :: "db \<Rightarrow> nat" where
  "new_so_id d = next_rowid (so_seq d) (map so_id (sales_orders d))"

text \<open>The number of rows \<^verbatim>\<open>SELECT COUNT(*) FROM sales_orders WHERE so_no LIKE ?\<close> finds.\<close>

definition count_like :: "string \<Rightarrow> so_row list \<Rightarrow> nat" where
  "count_like pat rows = length (filter (so_no_like pat) rows)"

text \<open>
  \<^verbatim>\<open>salesorder_new\<close> on a \<^verbatim>\<open>POST\<close>. The result is the database after the commit and
  the number assigned. The placeholder insert fails when the customer is missing
  (\<^verbatim>\<open>NOT NULL\<close>) or when a row already has the empty number (\<^verbatim>\<open>UNIQUE\<close>), and the update
  of the number fails when another row has the generated number. An exception leaves
  the transaction uncommitted.
\<close>

definition salesorder_new :: "pyfloat \<Rightarrow> clock \<Rightarrow> so_form \<Rightarrow> db \<Rightarrow> error + db \<times> string" where
  "salesorder_new pf clk f d =
     (let date = (case sof_date f of
                    None \<Rightarrow> strftime_Y_m_d clk
                  | Some s \<Rightarrow> if s = [] then strftime_Y_m_d clk else s)
      in case sof_customer_id f of
           None \<Rightarrow> Inl IntegrityError
         | Some customer_id \<Rightarrow>
             if (\<exists>r \<in> set (sales_orders d). so_no r = Some []) then Inl IntegrityError
             else
               (let so_id_v = new_so_id d;
                    placeholder =
                      \<lparr>so_id = so_id_v, so_no = Some [], so_customer_id = Some customer_id,
                       so_date = Some date,
                       so_expected_delivery_date = sof_expected_delivery_date f,
                       so_notes = sof_notes f, so_total = 0, so_grand_total = 0\<rparr>;
                    today_str = strftime_Ymd clk;
                    count_today =
                      count_like (''SO'' @ today_str @ ''-%'') (sales_orders d @ [placeholder]);
                    next_seq = count_today + 1;
                    so_no_v = ''SO'' @ today_str @ ''-'' @ zero_pad 5 next_seq
                in if (\<exists>r \<in> set (sales_orders d). so_no r = Some so_no_v)
                   then Inl IntegrityError
                   else
                     (case so_lines pf f [0..<length (sof_item_ids f)] (0, []) of
                        Inl e \<Rightarrow> Inl e
                      | Inr (total_v, line_items) \<Rightarrow>
                          Inr (d\<lparr>sales_orders :=
                                    sales_orders d @
                                    [placeholder\<lparr>so_no := Some so_no_v, so_total := total_v,
                                                 so_grand_total := total_v\<rparr>],
                                  so_seq := so_id_v,
                                  sales_order_items :=
                                    sales_order_items d @ map (sline_of so_id_v) line_items\<rparr>,
                               so_no_v))))"

text \<open>
  \<^verbatim>\<open>salesorder_edit\<close> on a \<^verbatim>\<open>POST\<close>: the lines are replaced and the header, with the
  number submitted, is written last.
\<close>

definition salesorder_edit :: "pyfloat \<Rightarrow> so_form \<Rightarrow> nat \<Rightarrow> db \<Rightarrow> error + db" where
  "salesorder_edit pf f so_id_v d =
     (if \<not> (\<exists>r \<in> set (sales_orders d). so_id r = so_id_v) then Inl NotFound
      else
        (case so_lines pf f [0..<length (sof_item_ids f)] (0, []) of
           Inl e \<Rightarrow> Inl e
         | Inr (total_v, line_items) \<Rightarrow>
             (case sof_customer_id f of
                None \<Rightarrow> Inl IntegrityError
              | Some customer_id \<Rightarrow>
                  if (case sof_so_no f of
                        None \<Rightarrow> False
                      | Some s \<Rightarrow> (\<exists>r \<in> set (sales_orders d).
                                     so_id r \<noteq> so_id_v \<and> so_no r = Some s))
                  then Inl IntegrityError
                  else
                    Inr (d\<lparr>sales_orders :=
                              map (\<lambda>r. if so_id r = so_id_v
                                        then r\<lparr>so_customer_id := Some customer_id,
                                               so_no := sof_so_no f, so_date := sof_date f,
                                               so_expected_delivery_date :=
                                                 sof_expected_delivery_date f,
                                               so_notes := sof_notes f, so_total := total_v,
                                               so_grand_total := total_v\<rparr>
                                        else r) (sales_orders d),
                            sales_order_items :=
                              filter (\<lambda>l. sl_doc l \<noteq> so_id_v) (sales_order_items d)
                              @ map (sline_of so_id_v) line_items\<rparr>))))"

subsection \<open>Sample requests\<close>

text \<open>
  A clock, invoice forms and the invoice tables they lead to, for evaluating the
  routes: \<open>si_form_0\<close> leaves the invoice number empty, \<open>si_form_1\<close> submits one,
  \<open>si_form_comma\<close> writes the quantity with a decimal comma and \<open>si_form_no_item\<close>
  leaves the item reference of its line empty. \<open>si_db_orphan\<close> and \<open>si_db_drift\<close> are
  the tables after an edit of invoice 1 on the empty database and after the creation
  that follows it.
\<close>

definition clock_0 :: clock where
  "clock_0 = \<lparr>year = 2025, month = 1, day = 2, timestamp = 1735776000.75\<rparr>"



definition si_db_1 :: db where
  "si_db_1 = empty_db
     \<lparr>sales_invoices :=
        [\<lparr>si_id = 1, si_invoice_no = ''INV1735776000'', si_sales_order_id = None,
          si_customer_id = Some ''1'', si_date = Some ''2025-01-02'', si_due_date = None,
          si_notes = None, si_total = 20, si_grand_total = 20\<rparr>],
      si_seq := 1,
      sales_invoice_items :=
        [\<lparr>sl_doc = 1, sl_item_id = ''7'', sl_qty = 2, sl_rate = 10, sl_discount = 0,
          sl_line_total = 20\<rparr>]\<rparr>"


definition si_form_comma :: si_form where
  "si_form_comma = \<lparr>sif_customer_id = Some ''1'', sif_date = Some ''2025-01-02'',
                     sif_due_date = None, sif_invoice_no = Some [], sif_notes = None,
                     sif_sales_order_id = None,
                     sif_item_ids = [''7''], sif_qtys = [''1,5''], sif_rates = [''10''],
                     sif_discounts = [''0'']\<rparr>"

definition si_form_no_item :: si_form where
  "si_form_no_item = \<lparr>sif_customer_id = Some ''1'', sif_date = Some ''2025-01-02'',
                       sif_due_date = None, sif_invoice_no = Some [], sif_notes = None,
                       sif_sales_order_id = None,
                       sif_item_ids = [[]], sif_qtys = [''2''], sif_rates = [''10''],
                       sif_discounts = [''0'']\<rparr>"



text \<open>
  Order forms and order tables: \<open>so_form_0\<close> has one line without item reference,
  \<open>so_form_line\<close> one line with an item, and \<open>so_form_rename\<close> submits the number
  \<open>SO20250102\<close> on the edit form.
\<close>

definition so_form_0 :: so_form where
  "so_form_0 = \<lparr>sof_customer_id = Some ''1'', sof_so_no = None, sof_date = None,
                 sof_expected_delivery_date = None, sof_notes = None,
                 sof_item_ids = [[]], sof_qtys = [''2''], sof_rates = [''10''],
                 sof_discounts = [''0'']\<rparr>"

definition so_form_rename :: so_form where
  "so_form_rename = \<lparr>sof_customer_id = Some ''1'', sof_so_no = Some ''SO20250102'',
                      sof_date = Some ''2025-01-02'', sof_expected_delivery_date = None,
                      sof_notes = None, sof_item_ids = [], sof_qtys = [], sof_rates = [],
                      sof_discounts = []\<rparr>"

definition so_row_0 :: "nat \<Rightarrow> string \<Rightarrow> so_row" where
  "so_row_0 i n = \<lparr>so_id = i, so_no = Some n, so_customer_id = Some ''1'',
                   so_date = Some ''2025-01-02'', so_expected_delivery_date = None,
                   so_notes = None, so_total = 0, so_grand_total = 0\<rparr>"

definition so_db_1 :: db where
  "so_db_1 = empty_db\<lparr>sales_orders := [so_row_0 1 ''SO20250102-00001''], so_seq := 1\<rparr>"

definition so_db_2 :: db where
  "so_db_2 = empty_db\<lparr>sales_orders := [so_row_0 1 ''SO20250102-00001'',
                                         so_row_0 2 ''SO20250102-00002''], so_seq := 2\<rparr>"

definition so_db_renamed :: db where
  "so_db_renamed = empty_db\<lparr>sales_orders := [so_row_0 1 ''SO20250102''], so_seq := 1\<rparr>"

definition so_db_after :: db where
  "so_db_after = empty_db\<lparr>sales_orders := [so_row_0 1 ''SO20250102'',
                                             so_row_0 2 ''SO20250102-00001''], so_seq := 2\<rparr>"

definition so_form_line :: so_form where
  "so_form_line = \<lparr>sof_customer_id = Some ''1'', sof_so_no = None, sof_date = None,
                    sof_expected_delivery_date = None, sof_notes = None,
                    sof_item_ids = [''1''], sof_qtys = [''3''], sof_rates = [''100''],
                    sof_discounts = [''10'']\<rparr>"

section \<open>Properties of the line-item calculators\<close>

lemma safe_float_blank: "strip s = [] \<Longrightarrow> safe_float pf (Some s) = 0"
  by (simp add: safe_float_def)

lemma safe_float_None: "safe_float pf None = 0"
  by (simp add: safe_float_def)

lemma safe_float_failure:
  "pf (replace_char (CHR '','') (CHR ''.'') s) = None \<Longrightarrow> safe_float pf (Some s) = 0"
  by (simp add: safe_float_def)

lemma safe_float_comma:
  "strip s \<noteq> [] \<Longrightarrow> pf (replace_char (CHR '','') (CHR ''.'') s) = Some x
     \<Longrightarrow> safe_float pf (Some s) = x"
  by (simp add: safe_float_def)

text \<open>
  The body of the three-parameter definition, taken by itself: the returned
  quantity, rate and discount are the normalised inputs and the line total is
  \<open>max (qty * rate * (1 - discount / 100)) 0\<close>.
\<close>

lemma calculate_line_sales_body:
  assumes "calculate_line_sales pf q r d = (qty, rate, disc, line_total)"
  shows "qty = safe_float pf q \<and> rate = safe_float pf r \<and> disc = safe_float pf d
         \<and> line_total = max (qty * rate * (1 - disc / 100)) 0
         \<and> 0 \<le> line_total"
  using assms by (auto simp add: calculate_line_sales_def Let_def)

text \<open>
  Claim C1. The sales routes call \<^verbatim>\<open>calculate_line\<close> with three arguments (quantity,
  rate, discount). When a request is served the name denotes the four-parameter
  function, so the call raises \<^verbatim>\<open>TypeError\<close> for every quantity, rate and discount and
  no line total is returned; the three-parameter body would have given 270 for
  quantity 3, rate 100 and discount 10.
\<close>

theorem calculate_line_three_arguments:
  "calculate_line pf [qty0, rate0, disc0] = Inl TypeError
   \<and> global_lookup ''calculate_line'' = Some CalcPurchase
   \<and> calculate_line_sales py_float (Some ''3'') (Some ''100'') (Some ''10'') = (3, 100, 10, 270)"
proof -
  have g: "global_lookup ''calculate_line'' = Some CalcPurchase"
    by (simp add: global_lookup_def module_defs_def)
  have c: "calculate_line pf [qty0, rate0, disc0] = Inl TypeError"
    by (simp add: calculate_line_def g)
  have b: "calculate_line_sales py_float (Some ''3'') (Some ''100'') (Some ''10'')
             = (3, 100, 10, 270)"
    by code_simp
  show ?thesis by (rule conjI [OF c conjI [OF g b]])
qed

text \<open>
  Claim C2. The purchase-style calculator returns
  \<open>net = max (qty * rate - discount) 0\<close>, \<open>tax = net * gst / 100\<close> and
  \<open>line_total = net + tax\<close>, for all inputs and so in particular for non-negative
  ones, where it also makes every part non-negative.
\<close>

theorem calculate_line_purchase_parts:
  assumes "calculate_line_purchase pf q r d g = (qty, rate, disc, gst, net, tax, line_total)"
  shows "qty = safe_float pf q \<and> rate = safe_float pf r \<and> disc = safe_float pf d
         \<and> gst = safe_float pf g
         \<and> net = max (qty * rate - disc) 0
         \<and> tax = net * gst / 100
         \<and> line_total = net + tax
         \<and> (0 \<le> gst \<longrightarrow> 0 \<le> net \<and> 0 \<le> tax \<and> 0 \<le> line_total)"
proof -
  from assms have parts:
    "qty = safe_float pf q" "rate = safe_float pf r" "disc = safe_float pf d"
    "gst = safe_float pf g" "net = max (qty * rate - disc) 0"
    "tax = net * (gst / 100)" "line_total = net + tax"
    by (auto simp add: calculate_line_purchase_def Let_def)
  have net0: "0 \<le> net" using parts(5) by simp
  have tax0: "0 \<le> tax" if "0 \<le> gst"
  proof -
    from that have "0 \<le> gst / 100" by simp
    with net0 show ?thesis unfolding parts(6) by (rule mult_nonneg_nonneg)
  qed
  have tax_eq: "tax = net * gst / 100" using parts(6) by simp
  have "0 \<le> gst \<longrightarrow> 0 \<le> net \<and> 0 \<le> tax \<and> 0 \<le> line_total"
    using net0 tax0 parts(7) by auto
  with parts(1-5) parts(7) tax_eq show ?thesis by blast
qed

theorem calculate_line_purchase_parts_witness:
  "calculate_line_purchase py_float (Some ''4'') (Some ''25'') (Some ''10'') (Some ''18'')
     = (4, 25, 10, 18, 90, 81 / 5, 531 / 5)
   \<and> (0::real) \<le> 18
   \<and> (90::real) = max (4 * 25 - 10) 0 \<and> (81 / 5 :: real) = 90 * 18 / 100
   \<and> (531 / 5 :: real) = 90 + 81 / 5"
proof -
  have a: "calculate_line_purchase py_float (Some ''4'') (Some ''25'') (Some ''10'') (Some ''18'')
             = (4, 25, 10, 18, 90, 81 / 5, 531 / 5)"
    by code_simp
  from calculate_line_purchase_parts [OF a] a show ?thesis by simp
qed

section \<open>Properties of the amount in words\<close>

lemma inr_number_negative: "n < 0 \<Longrightarrow> inr_number_to_words k n = Inl RecursionError"
proof (induction k arbitrary: n)
  case 0
  show ?case by simp
next
  case (Suc k)
  from Suc.prems have neg: "n div 10000000 < 0" by simp
  then have rec: "inr_number_to_words k (n div 10000000) = Inl RecursionError"
    by (rule Suc.IH)
  from neg have "n div 10000000 \<noteq> 0" by simp
  with rec Suc.prems show ?case
    by (simp add: words_body_def group_words_def Let_def)
qed

lemma two_digits_index: "num < 100 \<Longrightarrow> num div 10 < length tens \<and> num mod 10 < length ones"
proof -
  assume "num < 100"
  then have "num div 10 < 10" and "num mod 10 < 20" by simp_all
  moreover have "length tens = 10" and "length ones = 20"
    by (simp_all add: tens_def ones_def)
  ultimately show ?thesis by simp
qed

lemma three_digits_index:
  "num < 1000 \<Longrightarrow> num div 100 < length ones \<and> num mod 100 < 100"
proof -
  assume "num < 1000"
  then have "num div 100 < 20" by simp
  moreover have "length ones = 20" by (simp add: ones_def)
  ultimately show ?thesis by simp
qed

lemma inr_words_of_zero:
  assumes "0 < depth"
    and "case num2words of None \<Rightarrow> True | Some f \<Rightarrow> f 0 = None \<or> f 0 = Some ''zero''"
    and "amount_float pf amount = None \<or> amount_float pf amount = Some 0"
  shows "inr_words pf num2words depth amount = Inr ''zero rupees only''"
proof -
  from assms(1) obtain k where k: "depth = Suc k" by (cases depth) auto
  have n: "(case amount_float pf amount of None \<Rightarrow> 0 | Some x \<Rightarrow> py_round2 x) = 0"
    using assms(3) by (auto simp add: py_round2_def py_round_def)
  have lib: "library_words num2words 0 0 = None
             \<or> library_words num2words 0 0 = Some ''zero rupees only''"
    using assms(2)
    by (auto simp add: library_words_def replace_char_def split: option.splits)
  have fb: "inr_number_to_words depth 0 = Inr ''zero''"
    by (simp add: k words_body_def)
  show ?thesis
    using lib fb by (auto simp add: inr_words_def n py_int_def py_round_def)
qed

text \<open>
  \<^verbatim>\<open>inr_words(0)\<close> is \<open>zero rupees only\<close>, and so is the result for \<^verbatim>\<open>None\<close>, for the
  empty string and for every string the float conversion rejects: the amount is
  taken as 0 and no error is raised. This holds with the fallback converter and with
  a \<^verbatim>\<open>num2words\<close> that renders 0 as \<open>zero\<close> (or fails).
\<close>

theorem inr_words_zero_phrase:
  assumes "0 < depth"
    and "case num2words of None \<Rightarrow> True | Some f \<Rightarrow> f 0 = None \<or> f 0 = Some ''zero''"
  shows "inr_words pf num2words depth (PNum 0) = Inr ''zero rupees only''
         \<and> inr_words pf num2words depth PNone = Inr ''zero rupees only''
         \<and> inr_words pf num2words depth (PStr '''') = Inr ''zero rupees only''
         \<and> (pf s = None \<longrightarrow> inr_words pf num2words depth (PStr s) = Inr ''zero rupees only'')"
  using inr_words_of_zero [OF assms] by (simp add: amount_float_def)

theorem inr_words_zero_phrase_witness:
  "(0::nat) < 1000 \<and> py_float ''12 rupees'' = None
   \<and> inr_words py_float None 1000 (PNum 0) = Inr ''zero rupees only''
   \<and> inr_words py_float None 1000 (PStr ''12 rupees'') = Inr ''zero rupees only''
   \<and> inr_words py_float (Some (\<lambda>n. if n = 0 then Some ''zero'' else None)) 1000 PNone
        = Inr ''zero rupees only''"
proof -
  have p: "py_float ''12 rupees'' = None" by code_simp
  from inr_words_zero_phrase [of 1000 None py_float "''12 rupees''"]
       inr_words_zero_phrase [of 1000 "Some (\<lambda>n. if n = 0 then Some ''zero'' else None)" py_float "''''"]
       p
  show ?thesis by simp
qed

text \<open>
  Claim C8. The claim asks that a negative amount be treated as 0, giving
  \<open>zero rupees only\<close> without an error. \<^verbatim>\<open>inr_words\<close> has no guard for the sign:
  for the amount \<open>-5\<close>, as a number or as the string \<open>-5\<close>, and without \<^verbatim>\<open>num2words\<close>,
  the fallback converter recurses on the crore part \<open>-5 // 10000000 = -1\<close>, which
  never reaches 0, and the call ends in \<^verbatim>\<open>RecursionError\<close> whatever the frame limit
  \<open>depth\<close> is.
\<close>

theorem inr_words_negative_recursion:
  "inr_words pf None depth (PNum (- 5)) = Inl RecursionError
   \<and> inr_words py_float None depth (PStr ''-5'') = Inl RecursionError"
proof -
  have r: "py_round2 (- 5) = - 5" by (simp add: py_round2_def py_round_def)
  have i: "py_int (- 5) = - 5" by (simp add: py_int_def)
  have p: "py_float ''-5'' = Some (- 5)" by code_simp
  have a: "inr_words pf None depth (PNum (- 5)) = Inl RecursionError"
    by (simp add: inr_words_def amount_float_def r i library_words_def inr_number_negative)
  have b: "inr_words py_float None depth (PStr ''-5'') = Inl RecursionError"
    by (simp add: inr_words_def amount_float_def p r i library_words_def inr_number_negative)
  show ?thesis by (rule conjI [OF a b])
qed

section \<open>Properties of the font-shrink loop\<close>

lemma shrink_font_stop:
  "\<not> (mw < w \<and> 12 < sz) \<Longrightarrow> shrink_font ts name mw sz w = (sz, w)"
  by (subst shrink_font.simps) auto

lemma shrink_font_step:
  "mw < w \<Longrightarrow> 12 < sz \<Longrightarrow>
   shrink_font ts name mw sz w
     = shrink_font ts name mw (sz - 2) (ts name (TrueType (sz - 2)))"
  by (subst shrink_font.simps) simp

lemma shrink_font_run:
  "\<exists>k w'. shrink_font ts name mw sz w = (sz - 2 * int k, w')
     \<and> (w' \<le> mw \<or> sz - 2 * int k \<le> 12)
     \<and> (k = 0 \<or> (12 < sz \<and> 10 < sz - 2 * int k))"
proof (induction ts name mw sz w rule: shrink_font.induct)
  case (1 ts name mw sz w)
  show ?case
  proof (cases "mw < w \<and> 12 < sz")
    case False
    from shrink_font_stop [OF False]
    have "shrink_font ts name mw sz w = (sz - 2 * int 0, w)" by simp
    moreover from False have "w \<le> mw \<or> sz - 2 * int 0 \<le> 12" by auto
    ultimately show ?thesis by blast
  next
    case True
    from "1.IH" [OF True] obtain k w' where
      run: "shrink_font ts name mw (sz - 2) (ts name (TrueType (sz - 2))) = (sz - 2 - 2 * int k, w')"
      and stop: "w' \<le> mw \<or> sz - 2 - 2 * int k \<le> 12"
      and low: "k = 0 \<or> (12 < sz - 2 \<and> 10 < sz - 2 - 2 * int k)"
      by blast
    from True have "shrink_font ts name mw sz w
        = shrink_font ts name mw (sz - 2) (ts name (TrueType (sz - 2)))"
      by (intro shrink_font_step) simp_all
    with run have "shrink_font ts name mw sz w = (sz - 2 * int (Suc k), w')"
      by simp
    moreover from stop have "w' \<le> mw \<or> sz - 2 * int (Suc k) \<le> 12" by simp
    moreover from low True have "12 < sz \<and> 10 < sz - 2 * int (Suc k)" by auto
    ultimately show ?thesis by blast
  qed
qed


lemma fit_item_name_sizes:
  "\<exists>k w'. fit_item_name ts (font_text True) name = Inr (TrueType (18 - 2 * int k), w') \<and> k \<le> 3"
proof -
  from shrink_font_run [of ts name "CELL_W - 10" 18 "ts name (TrueType 18)"]
  obtain k w' where
    run: "shrink_font ts name (CELL_W - 10) 18 (ts name (TrueType 18)) = (18 - 2 * int k, w')"
    and low: "k = 0 \<or> (12 < (18::int) \<and> 10 < 18 - 2 * int k)"
    by blast
  from low have k3: "k \<le> 3" by auto
  from run have "fit_item_name ts (font_text True) name = Inr (TrueType (18 - 2 * int k), w')"
    by (simp add: fit_item_name_def font_text_def)
  with k3 show ?thesis by blast
qed

text \<open>
  Claim C9. The font-shrink loop terminates for every item name and every width
  function: \<open>shrink_font\<close> is a total function whose recursion descends on
  \<open>fsize - 12\<close>. It returns after some number \<open>k\<close> of iterations, each of which lowers
  the size by 2; on return the name fits or the size is at most 12, and a loop that
  iterated at all started above 12 and did not go below the floor (the final size
  stays above 10, so from the source's 18 it ends at 18, 16, 14 or 12).
\<close>

theorem shrink_font_terminates:
  "\<exists>k w'. shrink_font textsize name max_width fsize w = (fsize - 2 * int k, w')
     \<and> (w' \<le> max_width \<or> fsize - 2 * int k \<le> 12)
     \<and> (k = 0 \<or> (12 < fsize \<and> 10 < fsize - 2 * int k))"
  by (rule shrink_font_run)

section \<open>Properties of the paginated listings\<close>

lemma ceil_neg_div: "- ((- t) div p) = \<lceil>real_of_int t / real_of_int p\<rceil>"
  by (simp add: ceiling_divide_eq_div)

lemma ceil_add_div:
  assumes "(0::int) < p"
  shows "(t + p - 1) div p = - ((- t) div p)"
proof -
  define q where "q = t div p"
  define r where "r = t mod p"
  have t: "t = p * q + r" by (simp add: q_def r_def)
  have r: "0 \<le> r" "r < p" using assms by (simp_all add: r_def)
  have p0: "p \<noteq> 0" using assms by simp
  have lhs: "(t + p - 1) div p = q + (r + p - 1) div p"
  proof -
    have "t + p - 1 = p * q + (r + p - 1)" using t by simp
    then show ?thesis using p0 by (metis div_mult_self4)
  qed
  have rhs: "- ((- t) div p) = (if r = 0 then q else q + 1)"
    using p0 by (simp add: zdiv_zminus1_eq_if q_def r_def)
  show ?thesis
  proof (cases "r = 0")
    case True
    then have "(r + p - 1) div p = 0" using assms by simp
    with lhs rhs True show ?thesis by simp
  next
    case False
    with r have "0 \<le> r - 1" "r - 1 < p" by simp_all
    then have "(r - 1) div p = 0" by simp
    moreover have "(r + p - 1) div p = (r - 1) div p + 1"
    proof -
      have "r + p - 1 = (r - 1) + p" by simp
      then show ?thesis using p0 by (metis div_add_self2)
    qed
    ultimately show ?thesis using lhs rhs False by simp
  qed
qed

lemma ceil_mult_ge:
  assumes "(0::int) < p"
  shows "t \<le> \<lceil>real_of_int t / real_of_int p\<rceil> * p"
proof -
  have "real_of_int t / real_of_int p \<le> real_of_int \<lceil>real_of_int t / real_of_int p\<rceil>"
    by (rule le_of_int_ceiling)
  moreover have pr: "0 < real_of_int p" using assms by simp
  ultimately have "real_of_int t \<le> real_of_int \<lceil>real_of_int t / real_of_int p\<rceil> * real_of_int p"
    using pos_divide_le_eq [OF pr] by blast
  then have "real_of_int t \<le> real_of_int (\<lceil>real_of_int t / real_of_int p\<rceil> * p)"
    by simp
  then show ?thesis by (simp only: of_int_le_iff)
qed


lemma customer_pages_ceiling:
  assumes "0 < per_page"
  shows "customer_pages t per_page = Inr (max 1 \<lceil>real_of_int t / real_of_int per_page\<rceil>)"
  using assms by (simp add: customer_pages_def ceil_neg_div)

lemma supplier_pages_ceiling:
  assumes "0 < per_page"
  shows "supplier_pages t per_page = Inr \<lceil>real_of_int t / real_of_int per_page\<rceil>"
  using assms ceil_add_div [OF assms, of t] by (simp add: supplier_pages_def ceil_neg_div)

lemma po_pages_ceiling:
  assumes "0 < per_page"
  shows "po_pages t per_page = Inr \<lceil>real_of_int t / real_of_int per_page\<rceil>"
  using assms by (simp add: po_pages_def)

lemma sql_limit_offset_fits:
  assumes "fits_int64 limit_n" and "fits_int64 offset_n"
  shows "sql_limit_offset limit_n offset_n rows = Inr (limit_offset_rows limit_n offset_n rows)"
  using assms by (simp add: sql_limit_offset_def)

lemma sql_limit_offset_overflow:
  assumes "\<not> fits_int64 offset_n"
  shows "sql_limit_offset limit_n offset_n rows = Inl OverflowError"
  using assms by (simp add: sql_limit_offset_def)

lemma page_beyond_empty:
  assumes "0 < per_page" and "\<lceil>real (length m) / real_of_int per_page\<rceil> < page"
    and "length m' \<le> length m"
  shows "limit_offset_rows per_page ((page - 1) * per_page) m' = []"
proof -
  let ?c = "\<lceil>real_of_int (int (length m)) / real_of_int per_page\<rceil>"
  from assms(2) have "?c \<le> page - 1" by simp
  then have "?c * per_page \<le> (page - 1) * per_page"
    using assms(1) by (simp add: mult_right_mono)
  moreover have "int (length m) \<le> ?c * per_page"
    using assms(1) by (rule ceil_mult_ge)
  ultimately have "int (length m) \<le> (page - 1) * per_page" by linarith
  then have "length m \<le> nat ((page - 1) * per_page)" by linarith
  with assms(3) have "length m' \<le> nat ((page - 1) * per_page)" by linarith
  then show ?thesis by (simp add: limit_offset_rows_def)
qed

lemma page_below_first:
  assumes "0 < per_page" and "page < 1"
  shows "limit_offset_rows per_page ((page - 1) * per_page) m = take (nat per_page) m"
proof -
  from assms have "(page - 1) * per_page \<le> 0"
    by (simp add: mult_nonpos_nonneg)
  then have "nat ((page - 1) * per_page) = 0" by simp
  with assms(1) show ?thesis by (simp add: limit_offset_rows_def)
qed

lemma customer_list_result:
  assumes "0 < per_page" and "fits_int64 per_page" and "fits_int64 ((page - 1) * per_page)"
  shows "customer_list m per_page page
           = Inr (int (length m), max 1 \<lceil>real (length m) / real_of_int per_page\<rceil>,
                  limit_offset_rows per_page ((page - 1) * per_page) m)"
  using customer_pages_ceiling [OF assms(1), of "int (length m)"]
        sql_limit_offset_fits [OF assms(2) assms(3), of m]
  by (simp add: customer_list_def)

lemma items_list_result:
  assumes "0 < per_page" and "fits_int64 per_page" and "fits_int64 ((page - 1) * per_page)"
  shows "items_list m per_page page
           = Inr (int (length m), max 1 \<lceil>real (length m) / real_of_int per_page\<rceil>,
                  limit_offset_rows per_page ((page - 1) * per_page) m)"
  using customer_pages_ceiling [OF assms(1), of "int (length m)"]
        sql_limit_offset_fits [OF assms(2) assms(3), of m]
  by (simp add: items_list_def)

lemma supplier_list_result:
  assumes "0 < per_page" and "fits_int64 per_page" and "fits_int64 ((page - 1) * per_page)"
  shows "supplier_list m per_page page
           = Inr (int (length m), \<lceil>real (length m) / real_of_int per_page\<rceil>,
                  limit_offset_rows per_page ((page - 1) * per_page) m)"
  using supplier_pages_ceiling [OF assms(1), of "int (length m)"]
        sql_limit_offset_fits [OF assms(2) assms(3), of m]
  by (simp add: supplier_list_def)

lemma po_list_result:
  assumes "0 < per_page" and "fits_int64 per_page" and "fits_int64 ((page - 1) * per_page)"
  shows "po_list m per_page page
           = Inr (int (length m), \<lceil>real (length m) / real_of_int per_page\<rceil>,
                  limit_offset_rows per_page ((page - 1) * per_page) m)"
  using po_pages_ceiling [OF assms(1), of "int (length m)"]
        sql_limit_offset_fits [OF assms(2) assms(3), of m]
  by (simp add: po_list_def)

lemma salesorder_list_result:
  assumes "fits_int64 ((page - 1) * 10)"
  shows "salesorder_list m page
           = Inr (int (length m), \<lceil>real (length m) / real_of_int 10\<rceil>,
                  limit_offset_rows 10 ((page - 1) * 10) m)"
proof -
  have p: "(0::int) < 10" by simp
  have f: "fits_int64 10" by (simp add: fits_int64_def)
  from supplier_pages_ceiling [OF p, of "int (length m)"]
       sql_limit_offset_fits [OF f assms, of m]
  show ?thesis by (simp add: salesorder_list_def)
qed

lemma salesinvoice_list_result:
  assumes "fits_int64 ((page - 1) * 20)"
  shows "salesinvoice_list m hc page
           = Inr (int (length m), \<lceil>real (length m) / real_of_int 20\<rceil>,
                  limit_offset_rows 20 ((page - 1) * 20) (filter hc m))"
proof -
  have p: "(0::int) < 20" by simp
  have f: "fits_int64 20" by (simp add: fits_int64_def)
  from supplier_pages_ceiling [OF p, of "int (length m)"]
       sql_limit_offset_fits [OF f assms, of "filter hc m"]
  show ?thesis by (simp add: salesinvoice_list_def)
qed

text \<open>
  A page whose offset does not fit a signed 64-bit integer is rejected by every
  listing with \<^verbatim>\<open>OverflowError\<close>.
\<close>

lemma listing_offset_overflow:
  assumes "0 < per_page" and "\<not> fits_int64 ((page - 1) * per_page)"
  shows "customer_list m per_page page = Inl OverflowError"
    and "items_list m per_page page = Inl OverflowError"
    and "supplier_list m per_page page = Inl OverflowError"
    and "po_list m per_page page = Inl OverflowError"
    and "per_page = 10 \<Longrightarrow> salesorder_list m page = Inl OverflowError"
    and "per_page = 20 \<Longrightarrow> salesinvoice_list m hc page = Inl OverflowError"
  using assms
  by (simp_all add: customer_list_def items_list_def supplier_list_def po_list_def
        salesorder_list_def salesinvoice_list_def customer_pages_def supplier_pages_def
        sql_limit_offset_overflow)

text \<open>
  Claim C7, as amended. Let \<open>per_page\<close> be positive and let \<open>per_page\<close> and the offset
  \<open>(page - 1) * per_page\<close> fit a signed 64-bit integer. Then each of the six
  listings (customers, items, suppliers, purchase orders, and with their fixed page
  sizes 10 and 20 sales orders and sales invoices) succeeds and fetches the rows at
  offset \<open>(page - 1) * per_page\<close>. The customer and item listings compute
  \<open>max 1 \<lceil>total / per_page\<rceil>\<close> pages; the other four compute \<open>\<lceil>total / per_page\<rceil>\<close> pages
  whenever at least one row is counted. A page beyond the page count yields no rows,
  and a page below 1 yields the rows of the first page, since SQLite reads a negative
  offset as zero.
\<close>

theorem listing_pagination:
  assumes "0 < per_page" and "fits_int64 per_page" and "fits_int64 ((page - 1) * per_page)"
  shows "customer_list m per_page page
           = Inr (int (length m), max 1 \<lceil>real (length m) / real_of_int per_page\<rceil>,
                  limit_offset_rows per_page ((page - 1) * per_page) m)
       \<and> items_list m per_page page
           = Inr (int (length m), max 1 \<lceil>real (length m) / real_of_int per_page\<rceil>,
                  limit_offset_rows per_page ((page - 1) * per_page) m)
       \<and> (\<exists>pages. supplier_list m per_page page
                    = Inr (int (length m), pages,
                           limit_offset_rows per_page ((page - 1) * per_page) m)
                  \<and> (m \<noteq> [] \<longrightarrow> pages = \<lceil>real (length m) / real_of_int per_page\<rceil>))
       \<and> (\<exists>pages. po_list m per_page page
                    = Inr (int (length m), pages,
                           limit_offset_rows per_page ((page - 1) * per_page) m)
                  \<and> (m \<noteq> [] \<longrightarrow> pages = \<lceil>real (length m) / real_of_int per_page\<rceil>))
       \<and> (per_page = 10 \<longrightarrow>
            (\<exists>pages. salesorder_list m page
                    = Inr (int (length m), pages,
                           limit_offset_rows per_page ((page - 1) * per_page) m)
                  \<and> (m \<noteq> [] \<longrightarrow> pages = \<lceil>real (length m) / real_of_int per_page\<rceil>)))
       \<and> (per_page = 20 \<longrightarrow>
            (\<exists>pages. salesinvoice_list m hc page
                    = Inr (int (length m), pages,
                           limit_offset_rows per_page ((page - 1) * per_page) (filter hc m))
                  \<and> (m \<noteq> [] \<longrightarrow> pages = \<lceil>real (length m) / real_of_int per_page\<rceil>)))
       \<and> (\<lceil>real (length m) / real_of_int per_page\<rceil> < page
            \<longrightarrow> limit_offset_rows per_page ((page - 1) * per_page) m = []
                \<and> limit_offset_rows per_page ((page - 1) * per_page) (filter hc m) = [])
       \<and> (page < 1
            \<longrightarrow> limit_offset_rows per_page ((page - 1) * per_page) m = take (nat per_page) m
                \<and> limit_offset_rows per_page ((page - 1) * per_page) (filter hc m)
                    = take (nat per_page) (filter hc m))"
proof -
  note c = customer_list_result [OF assms, of m]
  note i = items_list_result [OF assms, of m]
  have s: "\<exists>pages. supplier_list m per_page page
                    = Inr (int (length m), pages,
                           limit_offset_rows per_page ((page - 1) * per_page) m)
                  \<and> (m \<noteq> [] \<longrightarrow> pages = \<lceil>real (length m) / real_of_int per_page\<rceil>)"
    using supplier_list_result [OF assms, of m] by simp
  have p: "\<exists>pages. po_list m per_page page
                    = Inr (int (length m), pages,
                           limit_offset_rows per_page ((page - 1) * per_page) m)
                  \<and> (m \<noteq> [] \<longrightarrow> pages = \<lceil>real (length m) / real_of_int per_page\<rceil>)"
    using po_list_result [OF assms, of m] by simp
  have so: "per_page = 10 \<longrightarrow>
            (\<exists>pages. salesorder_list m page
                    = Inr (int (length m), pages,
                           limit_offset_rows per_page ((page - 1) * per_page) m)
                  \<and> (m \<noteq> [] \<longrightarrow> pages = \<lceil>real (length m) / real_of_int per_page\<rceil>))"
  proof
    assume pp: "per_page = 10"
    with assms(3) have "fits_int64 ((page - 1) * 10)" by simp
    from salesorder_list_result [OF this, of m] pp
    show "\<exists>pages. salesorder_list m page
                    = Inr (int (length m), pages,
                           limit_offset_rows per_page ((page - 1) * per_page) m)
                  \<and> (m \<noteq> [] \<longrightarrow> pages = \<lceil>real (length m) / real_of_int per_page\<rceil>)"
      by simp
  qed
  have si: "per_page = 20 \<longrightarrow>
            (\<exists>pages. salesinvoice_list m hc page
                    = Inr (int (length m), pages,
                           limit_offset_rows per_page ((page - 1) * per_page) (filter hc m))
                  \<and> (m \<noteq> [] \<longrightarrow> pages = \<lceil>real (length m) / real_of_int per_page\<rceil>))"
  proof
    assume pp: "per_page = 20"
    with assms(3) have "fits_int64 ((page - 1) * 20)" by simp
    from salesinvoice_list_result [OF this, of m hc] pp
    show "\<exists>pages. salesinvoice_list m hc page
                    = Inr (int (length m), pages,
                           limit_offset_rows per_page ((page - 1) * per_page) (filter hc m))
                  \<and> (m \<noteq> [] \<longrightarrow> pages = \<lceil>real (length m) / real_of_int per_page\<rceil>)"
      by simp
  qed
  have b: "\<lceil>real (length m) / real_of_int per_page\<rceil> < page
            \<longrightarrow> limit_offset_rows per_page ((page - 1) * per_page) m = []
                \<and> limit_offset_rows per_page ((page - 1) * per_page) (filter hc m) = []"
    using page_beyond_empty [OF assms(1), of m page m]
          page_beyond_empty [OF assms(1), of m page "filter hc m"]
    by simp
  have f: "page < 1
            \<longrightarrow> limit_offset_rows per_page ((page - 1) * per_page) m = take (nat per_page) m
                \<and> limit_offset_rows per_page ((page - 1) * per_page) (filter hc m)
                    = take (nat per_page) (filter hc m)"
    using page_below_first [OF assms(1), of page m]
          page_below_first [OF assms(1), of page "filter hc m"]
    by simp
  show ?thesis
    by (rule conjI [OF c conjI [OF i conjI [OF s conjI [OF p conjI [OF so conjI [OF si
          conjI [OF b f]]]]]]])
qed

theorem listing_pagination_witness:
  "(0::int) < 2 \<and> fits_int64 2 \<and> fits_int64 ((2 - 1) * 2)
   \<and> customer_list [10, 20, 30 :: nat] 2 2 = Inr (3, 2, [30])
   \<and> items_list [10, 20, 30 :: nat] 2 3 = Inr (3, 2, [])
   \<and> supplier_list [10, 20, 30 :: nat] 2 0 = Inr (3, 2, [10, 20])
   \<and> po_list [10, 20, 30 :: nat] 2 2 = Inr (3, 2, [30])
   \<and> customer_list ([] :: nat list) 2 1 = Inr (0, 1, [])
   \<and> salesorder_list [10, 20, 30 :: nat] 1 = Inr (3, 1, [10, 20, 30])
   \<and> salesinvoice_list [10, 20, 30 :: nat] (\<lambda>x. x \<noteq> 20) 2 = Inr (3, 1, [])"
proof -
  have h: "(0::int) < 2" by simp
  have h10: "(0::int) < 10" by simp
  have h20: "(0::int) < 20" by simp
  have f2: "fits_int64 2" and f10: "fits_int64 10" and f20: "fits_int64 20"
    by (simp_all add: fits_int64_def)
  have o2: "fits_int64 ((2 - 1) * 2)" and o3: "fits_int64 ((3 - 1) * 2)"
    and o0: "fits_int64 ((0 - 1) * 2)" and o1: "fits_int64 ((1 - 1) * 2)"
    and o10: "fits_int64 ((1 - 1) * 10)" and o20: "fits_int64 ((2 - 1) * 20)"
    by (simp_all add: fits_int64_def)
  have c: "\<lceil>real (length [10, 20, 30 :: nat]) / real_of_int 2\<rceil> = 2" by simp
  have c10: "\<lceil>real (length [10, 20, 30 :: nat]) / real_of_int 10\<rceil> = 1" by simp
  have c20: "\<lceil>real (length [10, 20, 30 :: nat]) / real_of_int 20\<rceil> = 1" by simp
  from listing_pagination [OF h f2 o2, of "[10, 20, 30 :: nat]" "\<lambda>x. True"]
       listing_pagination [OF h f2 o3, of "[10, 20, 30 :: nat]" "\<lambda>x. True"]
       listing_pagination [OF h f2 o0, of "[10, 20, 30 :: nat]" "\<lambda>x. True"]
       listing_pagination [OF h f2 o1, of "[] :: nat list" "\<lambda>x. True"]
       listing_pagination [OF h10 f10 o10, of "[10, 20, 30 :: nat]" "\<lambda>x. True"]
       listing_pagination [OF h20 f20 o20, of "[10, 20, 30 :: nat]" "\<lambda>x. x \<noteq> 20"]
       c c10 c20 f2 o2
  show ?thesis by (simp add: limit_offset_rows_def)
qed

text \<open>
  The claim as stated fails at page 0, which shows the first two of three customers
  instead of an empty page, and for a supplier listing without rows, whose page count
  is 0.
\<close>

theorem listing_pagination_counterexample:
  "customer_list [10, 20, 30 :: nat] 2 0 = Inr (3, 2, [10, 20])
   \<and> supplier_list ([] :: nat list) 20 1 = Inr (0, 0, [])"
  by (simp add: customer_list_def customer_pages_def supplier_list_def supplier_pages_def
        sql_limit_offset_def limit_offset_rows_def fits_int64_def)

section \<open>Properties of the sales invoices\<close>

lemma save_invoice_cases:
  "save_invoice pf clk f ident d =
     (case si_lines pf f [0..<length (sif_item_ids f)] (0, []) of
        Inl e \<Rightarrow> Inl e
      | Inr (total_v, line_items) \<Rightarrow>
          (case ident of
             None \<Rightarrow>
               Inr (d\<lparr>sales_invoices := sales_invoices d @
                          [\<lparr>si_id = new_si_id d, si_invoice_no = invoice_no_of clk f,
                            si_sales_order_id = sif_sales_order_id f,
                            si_customer_id = sif_customer_id f, si_date = sif_date f,
                            si_due_date = sif_due_date f, si_notes = sif_notes f,
                            si_total = total_v, si_grand_total = total_v\<rparr>],
                        si_seq := new_si_id d,
                        sales_invoice_items :=
                          sales_invoice_items d @ map (sline_of (new_si_id d)) line_items\<rparr>)
           | Some i \<Rightarrow>
               Inr (d\<lparr>sales_invoices :=
                          map (\<lambda>r. if si_id r = i
                                    then r\<lparr>si_sales_order_id := sif_sales_order_id f,
                                           si_customer_id := sif_customer_id f,
                                           si_date := sif_date f, si_due_date := sif_due_date f,
                                           si_invoice_no := invoice_no_of clk f,
                                           si_notes := sif_notes f,
                                           si_total := total_v, si_grand_total := total_v\<rparr>
                                    else r) (sales_invoices d),
                        sales_invoice_items :=
                          filter (\<lambda>l. sl_doc l \<noteq> i) (sales_invoice_items d)
                          @ map (sline_of i) line_items\<rparr>)))"
  by (simp add: save_invoice_def Let_def split: sum.splits prod.splits option.splits)


lemma str_nat_sample: "str_nat 1735776000 = ''1735776000''"
  by (simp add: str_nat.simps digit_char_def)

lemma py_int_clock_0: "py_int (timestamp clock_0) = 1735776000"
  by (simp add: py_int_def clock_0_def)





lemma new_si_id_empty: "new_si_id empty_db = 1"
  by code_simp





lemma si_lines_comma:
  "si_lines py_float si_form_comma [0..<length (sif_item_ids si_form_comma)] (0, [])
     = Inl ValueError"
  by code_simp

lemma si_lines_no_item:
  "si_lines py_float si_form_no_item [0..<length (sif_item_ids si_form_no_item)] (0, [])
     = Inr (20, [([], 2, 10, 0, 20)])"
  by code_simp

lemma invoice_no_of_no_item: "invoice_no_of clock_0 si_form_no_item = ''INV1735776000''"
  by (simp add: invoice_no_of_def si_form_no_item_def py_int_clock_0 py_str_int_def
        str_nat_sample)

text \<open>
  Claim C5. The claim asks that every numeric parse of a line tolerate a decimal
  comma and coerce a failure to 0.0 without raising. \<^verbatim>\<open>save_invoice\<close> converts with
  \<^verbatim>\<open>float(x or 0)\<close>: for the quantity \<open>1,5\<close> the save ends in \<^verbatim>\<open>ValueError\<close>, on
  create and on edit, where \<^verbatim>\<open>safe_float\<close> of the order routes reads 1.5.
\<close>

theorem save_invoice_decimal_comma:
  "save_invoice py_float clock_0 si_form_comma None empty_db = Inl ValueError
   \<and> save_invoice py_float clock_0 si_form_comma (Some 1) si_db_1 = Inl ValueError
   \<and> float_or0 py_float ''1,5'' = Inl ValueError
   \<and> safe_float py_float (Some ''1,5'') = 3 / 2"
proof -
  have a: "save_invoice py_float clock_0 si_form_comma None empty_db = Inl ValueError"
    by (simp add: save_invoice_cases si_lines_comma)
  have b: "save_invoice py_float clock_0 si_form_comma (Some 1) si_db_1 = Inl ValueError"
    by (simp add: save_invoice_cases si_lines_comma)
  have c: "float_or0 py_float ''1,5'' = Inl ValueError" by code_simp
  have d: "safe_float py_float (Some ''1,5'') = 3 / 2" by code_simp
  show ?thesis by (rule conjI [OF a conjI [OF b conjI [OF c d]]])
qed

text \<open>
  Claim C6. The claim asks that a line with an empty item reference be skipped.
  \<^verbatim>\<open>save_invoice\<close> does not test the item reference: a form whose only line has the
  empty item reference, quantity 2 and rate 10 is saved with that line, and the line
  adds 20 to the totals of the invoice.
\<close>

theorem save_invoice_empty_item:
  "save_invoice py_float clock_0 si_form_no_item None empty_db
     = Inr (empty_db
         \<lparr>sales_invoices :=
            [\<lparr>si_id = 1, si_invoice_no = ''INV1735776000'', si_sales_order_id = None,
              si_customer_id = Some ''1'', si_date = Some ''2025-01-02'', si_due_date = None,
              si_notes = None, si_total = 20, si_grand_total = 20\<rparr>],
          si_seq := 1,
          sales_invoice_items :=
            [\<lparr>sl_doc = 1, sl_item_id = [], sl_qty = 2, sl_rate = 10, sl_discount = 0,
              sl_line_total = 20\<rparr>]\<rparr>)"
  by (simp add: save_invoice_cases invoice_no_of_no_item si_lines_no_item new_si_id_empty
        sline_of_def)
     (simp add: si_form_no_item_def empty_db_def)

lemma si_lines_sum:
  "si_lines pf f idxs acc = Inr (tv, ls) \<Longrightarrow>
     tv - sum_list (map (\<lambda>l. snd (snd (snd (snd l)))) ls)
       = fst acc - sum_list (map (\<lambda>l. snd (snd (snd (snd l)))) (snd acc))"
proof (induction idxs arbitrary: acc)
  case Nil
  then show ?case by simp
next
  case (Cons i rest)
  from Cons.prems obtain l where l: "si_line pf f i = Inr l"
    by (cases "si_line pf f i") simp_all
  from Cons.prems l
  have "si_lines pf f rest (fst acc + snd (snd (snd (snd l))), snd acc @ [l]) = Inr (tv, ls)"
    by simp
  from Cons.IH [OF this] show ?case by simp
qed

lemma sline_of_fields:
  "sl_doc (sline_of doc l) = doc" "sl_line_total (sline_of doc l) = snd (snd (snd (snd l)))"
  by (simp_all add: sline_of_def split: prod.splits)

lemma doc_lines_added:
  assumes "\<forall>l \<in> set old. sl_doc l \<noteq> doc"
  shows "sum_list (map sl_line_total (filter (\<lambda>l. sl_doc l = doc) (old @ map (sline_of doc) ls)))
           = sum_list (map (\<lambda>l. snd (snd (snd (snd l)))) ls)"
proof -
  from assms have a: "filter (\<lambda>l. sl_doc l = doc) old = []" by (simp add: filter_empty_conv)
  have b: "filter (\<lambda>l. sl_doc l = doc) (map (sline_of doc) ls) = map (sline_of doc) ls"
    by (simp add: filter_map comp_def sline_of_fields)
  show ?thesis by (simp add: a b comp_def sline_of_fields)
qed

text \<open>
  Where no line of another origin carries the id of the document, the grand total
  that \<^verbatim>\<open>save_invoice\<close> stores is the sum of the line totals of the persisted lines: on
  an edit always, and on a create when no line row carries the id the invoice
  receives.
\<close>

lemma save_invoice_totals:
  assumes "save_invoice pf clk f ident d = Inr d'"
    and "ident = None \<longrightarrow> (\<forall>l \<in> set (sales_invoice_items d). sl_doc l \<noteq> new_si_id d)"
  shows "\<forall>r \<in> set (sales_invoices d').
           si_id r = (case ident of None \<Rightarrow> new_si_id d | Some i \<Rightarrow> i)
           \<and> (ident = None \<longrightarrow> r \<notin> set (sales_invoices d))
           \<longrightarrow> si_grand_total r
               = sum_list (map sl_line_total
                   (filter (\<lambda>l. sl_doc l = si_id r) (sales_invoice_items d')))"
proof -
  obtain tv ls where l: "si_lines pf f [0..<length (sif_item_ids f)] (0, []) = Inr (tv, ls)"
    using assms(1)
    by (cases "si_lines pf f [0..<length (sif_item_ids f)] (0, [])")
       (auto simp add: save_invoice_cases)
  from si_lines_sum [OF l]
  have tv: "tv = sum_list (map (\<lambda>l. snd (snd (snd (snd l)))) ls)" by simp
  show ?thesis
  proof (cases ident)
    case None
    with assms(2) have old: "\<forall>l \<in> set (sales_invoice_items d). sl_doc l \<noteq> new_si_id d"
      by simp
    from assms(1) None l
    have rows: "sales_invoices d' = sales_invoices d @
                  [\<lparr>si_id = new_si_id d, si_invoice_no = invoice_no_of clk f,
                    si_sales_order_id = sif_sales_order_id f,
                    si_customer_id = sif_customer_id f, si_date = sif_date f,
                    si_due_date = sif_due_date f, si_notes = sif_notes f,
                    si_total = tv, si_grand_total = tv\<rparr>]"
      and items: "sales_invoice_items d'
                    = sales_invoice_items d @ map (sline_of (new_si_id d)) ls"
      by (auto simp add: save_invoice_cases)
    show ?thesis
      using None rows items doc_lines_added [OF old, of ls] tv by auto
  next
    case (Some i)
    define u :: "si_row \<Rightarrow> si_row" where
      "u = (\<lambda>r. if si_id r = i
                 then r\<lparr>si_sales_order_id := sif_sales_order_id f,
                        si_customer_id := sif_customer_id f,
                        si_date := sif_date f, si_due_date := sif_due_date f,
                        si_invoice_no := invoice_no_of clk f, si_notes := sif_notes f,
                        si_total := tv, si_grand_total := tv\<rparr>
                 else r)"
    have ug: "si_id r = i \<Longrightarrow> si_grand_total (u r) = tv" for r by (simp add: u_def)
    have ui: "si_id (u r) = si_id r" for r by (simp add: u_def)
    from assms(1) Some l
    have rows: "sales_invoices d' = map u (sales_invoices d)"
      and items: "sales_invoice_items d'
                    = filter (\<lambda>l. sl_doc l \<noteq> i) (sales_invoice_items d) @ map (sline_of i) ls"
      by (auto simp add: save_invoice_cases u_def)
    have old: "\<forall>l \<in> set (filter (\<lambda>l. sl_doc l \<noteq> i) (sales_invoice_items d)). sl_doc l \<noteq> i"
      by simp
    have s: "sum_list (map sl_line_total
               (filter (\<lambda>l. sl_doc l = i) (sales_invoice_items d'))) = tv"
      using doc_lines_added [OF old, of ls] tv items by simp
    show ?thesis
      using Some rows s ug ui by auto
  qed
qed





section \<open>Properties of the sales orders\<close>

lemma sqlite_like_empty_text: "sqlite_like (''SO'' @ t) [] = False"
  by simp

lemma placeholder_not_counted:
  "so_no r = Some [] \<Longrightarrow>
     count_like (''SO'' @ t) (rows @ [r]) = count_like (''SO'' @ t) rows"
  by (simp add: count_like_def so_no_like_def)

lemma salesorder_new_cases:
  "salesorder_new pf clk f d =
     (case sof_customer_id f of
        None \<Rightarrow> Inl IntegrityError
      | Some customer_id \<Rightarrow>
          if (\<exists>r \<in> set (sales_orders d). so_no r = Some []) then Inl IntegrityError
          else if (\<exists>r \<in> set (sales_orders d).
                     so_no r = Some (''SO'' @ strftime_Ymd clk @ ''-'' @ zero_pad 5
                       (Suc (count_like (''SO'' @ strftime_Ymd clk @ ''-%'') (sales_orders d)))))
          then Inl IntegrityError
          else
            (case so_lines pf f [0..<length (sof_item_ids f)] (0, []) of
               Inl e \<Rightarrow> Inl e
             | Inr (total_v, line_items) \<Rightarrow>
                 Inr (d\<lparr>sales_orders :=
                           sales_orders d @
                           [\<lparr>so_id = new_so_id d,
                             so_no = Some (''SO'' @ strftime_Ymd clk @ ''-'' @ zero_pad 5
                               (Suc (count_like (''SO'' @ strftime_Ymd clk @ ''-%'')
                                      (sales_orders d)))),
                             so_customer_id = Some customer_id,
                             so_date = Some (case sof_date f of
                                               None \<Rightarrow> strftime_Y_m_d clk
                                             | Some s \<Rightarrow> if s = [] then strftime_Y_m_d clk else s),
                             so_expected_delivery_date = sof_expected_delivery_date f,
                             so_notes = sof_notes f, so_total = total_v,
                             so_grand_total = total_v\<rparr>],
                         so_seq := new_so_id d,
                         sales_order_items :=
                           sales_order_items d @ map (sline_of (new_so_id d)) line_items\<rparr>,
                      ''SO'' @ strftime_Ymd clk @ ''-'' @ zero_pad 5
                        (Suc (count_like (''SO'' @ strftime_Ymd clk @ ''-%'') (sales_orders d))))))"
proof -
  have c: "count_like (''SO'' @ strftime_Ymd clk @ ''-%'')
             (sales_orders d @
              [\<lparr>so_id = i, so_no = Some [], so_customer_id = c, so_date = dt,
                so_expected_delivery_date = e, so_notes = n, so_total = 0,
                so_grand_total = 0\<rparr>])
           = count_like (''SO'' @ strftime_Ymd clk @ ''-%'') (sales_orders d)" for i c dt e n
    by (rule placeholder_not_counted) simp
  show ?thesis
    unfolding salesorder_new_def Let_def c
    by (simp split: option.splits sum.splits prod.splits)
qed

lemma sqlite_like_percent: "sqlite_like ''%'' t"
  by (induction t) simp_all

lemma sqlite_like_prefix: "CHR ''%'' \<notin> set p \<Longrightarrow> sqlite_like (p @ ''%'') (p @ t)"
  by (induction p) (auto simp add: sqlite_like_percent)

lemma digit_char_digit: "digit_char k \<in> set ''0123456789''"
  unfolding digit_char_def by (rule nth_mem) simp

lemma digit_char_not_percent: "digit_char k \<noteq> CHR ''%''"
  using digit_char_digit [of k] by auto

lemma str_nat_not_percent: "CHR ''%'' \<notin> set (str_nat k)"
proof (induction k rule: str_nat.induct)
  case (1 k)
  show ?case
  proof (cases "k < 10")
    case True
    then have "str_nat k = [digit_char k]" by (subst str_nat.simps) simp
    then show ?thesis using digit_char_not_percent [of k] by simp
  next
    case False
    then have s: "str_nat k = str_nat (k div 10) @ [digit_char (k mod 10)]"
      by (subst str_nat.simps) simp
    from 1 False have "CHR ''%'' \<notin> set (str_nat (k div 10))" by simp
    then show ?thesis using s digit_char_not_percent [of "k mod 10"] by simp
  qed
qed

lemma zero_pad_not_percent: "CHR ''%'' \<notin> set (zero_pad w k)"
  using str_nat_not_percent [of k] by (simp add: zero_pad_def)

lemma strftime_Ymd_not_percent: "CHR ''%'' \<notin> set (strftime_Ymd clk)"
  by (simp add: strftime_Ymd_def zero_pad_not_percent)

lemma so_number_matches:
  "sqlite_like (''SO'' @ strftime_Ymd clk @ ''-%'') (''SO'' @ strftime_Ymd clk @ ''-'' @ z)"
proof -
  have p: "CHR ''%'' \<notin> set (''SO'' @ strftime_Ymd clk @ ''-'')"
    using strftime_Ymd_not_percent [of clk] by simp
  from sqlite_like_prefix [OF p, of z] show ?thesis by simp
qed

lemma zero_pad_1: "zero_pad 5 (Suc 0) = ''00001''"
  by code_simp

lemma zero_pad_2: "zero_pad 5 (Suc (Suc 0)) = ''00002''"
  by code_simp

lemma salesorder_new_assigned:
  assumes "salesorder_new pf clk f d = Inr (d', n)"
  shows "n = ''SO'' @ strftime_Ymd clk @ ''-''
               @ zero_pad 5 (Suc (count_like (''SO'' @ strftime_Ymd clk @ ''-%'') (sales_orders d)))"
    and "\<exists>r. sales_orders d' = sales_orders d @ [r] \<and> so_id r = new_so_id d \<and> so_no r = Some n"
proof -
  obtain c where c: "sof_customer_id f = Some c"
    using assms by (cases "sof_customer_id f") (simp_all add: salesorder_new_cases)
  obtain tv ls where l: "so_lines pf f [0..<length (sof_item_ids f)] (0, []) = Inr (tv, ls)"
    using assms c
    by (cases "so_lines pf f [0..<length (sof_item_ids f)] (0, [])")
       (auto simp add: salesorder_new_cases split: if_splits)
  from assms c l
  show "n = ''SO'' @ strftime_Ymd clk @ ''-''
               @ zero_pad 5 (Suc (count_like (''SO'' @ strftime_Ymd clk @ ''-%'') (sales_orders d)))"
    by (simp add: salesorder_new_cases split: if_splits)
  from assms c l
  show "\<exists>r. sales_orders d' = sales_orders d @ [r] \<and> so_id r = new_so_id d \<and> so_no r = Some n"
    by (auto simp add: salesorder_new_cases split: if_splits)
qed

lemma salesorder_new_counted:
  assumes "salesorder_new pf clk f d = Inr (d', n)"
  shows "count_like (''SO'' @ strftime_Ymd clk @ ''-%'') (sales_orders d')
           = Suc (count_like (''SO'' @ strftime_Ymd clk @ ''-%'') (sales_orders d))"
proof -
  from salesorder_new_assigned [OF assms]
  obtain r where r: "sales_orders d' = sales_orders d @ [r]" "so_no r = Some n"
    and n: "n = ''SO'' @ strftime_Ymd clk @ ''-''
               @ zero_pad 5 (Suc (count_like (''SO'' @ strftime_Ymd clk @ ''-%'') (sales_orders d)))"
    by blast
  have "so_no_like (''SO'' @ strftime_Ymd clk @ ''-%'') r"
    using r(2) n so_number_matches [of clk] by (simp add: so_no_like_def)
  then show ?thesis using r(1) by (simp add: count_like_def)
qed

text \<open>
  A sales order with a line that is not skipped cannot be created: the call of
  \<^verbatim>\<open>calculate_line\<close> with three arguments raises \<^verbatim>\<open>TypeError\<close>.
\<close>

lemma salesorder_new_line_type_error:
  "salesorder_new py_float clock_0 so_form_line empty_db = Inl TypeError"
  by code_simp

lemma salesorder_new_first:
  "salesorder_new py_float clock_0 so_form_0 empty_db = Inr (so_db_1, ''SO20250102-00001'')"
  by code_simp

lemma salesorder_new_second:
  "salesorder_new py_float clock_0 so_form_0 so_db_1 = Inr (so_db_2, ''SO20250102-00002'')"
  by code_simp

text \<open>
  Claim C3, as amended. A sales order created at date \<open>D\<close> receives the number
  \<open>SO\<close>, \<open>D\<close> as \<open>YYYYMMDD\<close>, a hyphen and, padded with zeros to five digits, one
  plus the number of persisted orders whose number matches the \<^verbatim>\<open>LIKE\<close> pattern
  \<open>SO\<close> \<open>YYYYMMDD\<close> \<open>-%\<close>; the placeholder row of the order being created is not
  among them. The new row is stored under the next row id with that number. When no
  order matches beforehand and a second order is created on the same date right
  after, the two receive the sequences \<open>00001\<close> and \<open>00002\<close>.
\<close>

theorem salesorder_new_number:
  assumes "salesorder_new pf clk f d = Inr (d', n)"
  shows "n = ''SO'' @ strftime_Ymd clk @ ''-''
               @ zero_pad 5 (1 + count_like (''SO'' @ strftime_Ymd clk @ ''-%'') (sales_orders d))
       \<and> (\<exists>r. sales_orders d' = sales_orders d @ [r] \<and> so_id r = new_so_id d \<and> so_no r = Some n)
       \<and> (count_like (''SO'' @ strftime_Ymd clk @ ''-%'') (sales_orders d) = 0
            \<and> strftime_Ymd clk_b = strftime_Ymd clk
            \<and> salesorder_new pf_b clk_b f_b d' = Inr (d_b, n_b)
           \<longrightarrow> n = ''SO'' @ strftime_Ymd clk @ ''-00001''
               \<and> n_b = ''SO'' @ strftime_Ymd clk @ ''-00002'')"
proof -
  note a = salesorder_new_assigned [OF assms]
  have n: "n = ''SO'' @ strftime_Ymd clk @ ''-''
               @ zero_pad 5 (1 + count_like (''SO'' @ strftime_Ymd clk @ ''-%'') (sales_orders d))"
    using a(1) by simp
  have s: "count_like (''SO'' @ strftime_Ymd clk @ ''-%'') (sales_orders d) = 0
            \<and> strftime_Ymd clk_b = strftime_Ymd clk
            \<and> salesorder_new pf_b clk_b f_b d' = Inr (d_b, n_b)
           \<longrightarrow> n = ''SO'' @ strftime_Ymd clk @ ''-00001''
               \<and> n_b = ''SO'' @ strftime_Ymd clk @ ''-00002''"
  proof (intro impI)
    assume h: "count_like (''SO'' @ strftime_Ymd clk @ ''-%'') (sales_orders d) = 0
            \<and> strftime_Ymd clk_b = strftime_Ymd clk
            \<and> salesorder_new pf_b clk_b f_b d' = Inr (d_b, n_b)"
    then have z: "count_like (''SO'' @ strftime_Ymd clk @ ''-%'') (sales_orders d) = 0"
      and y: "strftime_Ymd clk_b = strftime_Ymd clk"
      and t: "salesorder_new pf_b clk_b f_b d' = Inr (d_b, n_b)"
      by simp_all
    have c: "count_like (''SO'' @ strftime_Ymd clk @ ''-%'') (sales_orders d') = Suc 0"
      using salesorder_new_counted [OF assms] z by simp
    have n1: "n = ''SO'' @ strftime_Ymd clk @ ''-00001''"
      using a(1) z by (simp add: zero_pad_1)
    have nb: "n_b = ''SO'' @ strftime_Ymd clk @ ''-00002''"
      using salesorder_new_assigned(1) [OF t] y c by (simp add: zero_pad_2)
    from n1 nb show "n = ''SO'' @ strftime_Ymd clk @ ''-00001''
               \<and> n_b = ''SO'' @ strftime_Ymd clk @ ''-00002''"
      by (rule conjI)
  qed
  show ?thesis by (rule conjI [OF n conjI [OF a(2) s]])
qed

theorem salesorder_new_number_witness:
  "salesorder_new py_float clock_0 so_form_0 empty_db = Inr (so_db_1, ''SO20250102-00001'')
   \<and> salesorder_new py_float clock_0 so_form_0 so_db_1 = Inr (so_db_2, ''SO20250102-00002'')
   \<and> strftime_Ymd clock_0 = ''20250102''
   \<and> count_like (''SO'' @ strftime_Ymd clock_0 @ ''-%'') (sales_orders empty_db) = 0
   \<and> map so_no (sales_orders so_db_2)
       = [Some (''SO'' @ strftime_Ymd clock_0 @ ''-00001''),
          Some (''SO'' @ strftime_Ymd clock_0 @ ''-00002'')]"
proof -
  have y: "strftime_Ymd clock_0 = ''20250102''" by code_simp
  have z: "count_like (''SO'' @ strftime_Ymd clock_0 @ ''-%'') (sales_orders empty_db) = 0"
    by (simp add: count_like_def empty_db_def)
  from salesorder_new_number [where clk_b = clock_0 and pf_b = py_float and f_b = so_form_0
         and d_b = so_db_2 and n_b = "''SO20250102-00002''", OF salesorder_new_first]
       salesorder_new_first salesorder_new_second y z
  show ?thesis by (simp add: so_db_2_def so_row_0_def)
qed

text \<open>
  The claim as stated counts the orders whose number starts with \<open>SO\<close> and the date.
  An order renumbered \<open>SO20250102\<close> through the edit form is such an order, but it
  does not match the pattern, which asks for the hyphen: the next order of that day
  receives the sequence \<open>00001\<close>, not \<open>00002\<close>.
\<close>

theorem salesorder_new_number_counterexample:
  "salesorder_edit py_float so_form_rename 1 so_db_1 = Inr so_db_renamed
   \<and> length (filter (\<lambda>r. case so_no r of None \<Rightarrow> False
                          | Some s \<Rightarrow> take 10 s = ''SO'' @ strftime_Ymd clock_0)
               (sales_orders so_db_renamed)) = 1
   \<and> salesorder_new py_float clock_0 so_form_0 so_db_renamed
       = Inr (so_db_after, ''SO20250102-00001'')"
proof -
  have a: "salesorder_edit py_float so_form_rename 1 so_db_1 = Inr so_db_renamed"
    by code_simp
  have b: "length (filter (\<lambda>r. case so_no r of None \<Rightarrow> False
                          | Some s \<Rightarrow> take 10 s = ''SO'' @ strftime_Ymd clock_0)
               (sales_orders so_db_renamed)) = 1"
    by code_simp
  have c: "salesorder_new py_float clock_0 so_form_0 so_db_renamed
       = Inr (so_db_after, ''SO20250102-00001'')"
    by code_simp
  show ?thesis by (rule conjI [OF a conjI [OF b c]])
qed

end
